theory Spec2Isabelle
  imports Main "HOL-Library.Char_ord" "HOL-Library.List_Lexorder" "HOL-Library.Multiset"
begin

section \<open>Day planner: time parser, validator, sorter, store and repository\<close>

text \<open>
  The development follows the TypeScript sources \<^verbatim>\<open>utils/timeUtils.ts\<close>,
  \<^verbatim>\<open>utils/validationUtils.ts\<close>, \<^verbatim>\<open>utils/taskUtils.ts\<close>,
  \<^verbatim>\<open>hooks/useLocalStorage.ts\<close> and \<^verbatim>\<open>hooks/useTasks.ts\<close>.

  A JavaScript string is modelled as a \<^typ>\<open>string\<close>: every \<^typ>\<open>char\<close> stands for one
  UTF-16 code unit below 256, and \<open>length\<close> is the source's \<^verbatim>\<open>.length\<close>.
  A TypeScript \<^verbatim>\<open>string\<close> parameter is always a string here, so the
  \<^verbatim>\<open>typeof x !== 'string'\<close> tests of the source are false and \<^verbatim>\<open>!x\<close> is
  \<open>x = []\<close>.
\<close>

subsection \<open>Strings and numbers of the host language\<close>

text \<open>\<^verbatim>\<open>\d\<close> of a regular expression: the ten ASCII digits.\<close>

definition isDigit :: "char \<Rightarrow> bool" where
  "isDigit c = (c \<in> set ''0123456789'')"

text \<open>
  White space of \<^verbatim>\<open>String.prototype.trim\<close> and of \<^verbatim>\<open>\s\<close>: TAB, LF, VT, FF, CR,
  SPACE and NO-BREAK SPACE are the ones below 256.
\<close>

definition isSpace :: "char \<Rightarrow> bool" where
  "isSpace c = (c \<in> set [CHR 0x09, CHR 0x0A, CHR 0x0B, CHR 0x0C, CHR 0x0D, CHR 0x20, CHR 0xA0])"

definition trim :: "string \<Rightarrow> string" where
  "trim s = rev (dropWhile isSpace (rev (dropWhile isSpace s)))"

definition digitVal :: "char \<Rightarrow> nat" where
  "digitVal c = of_char c - 48"

definition digitChar :: "nat \<Rightarrow> char" where
  "digitChar d = char_of (48 + d)"

text \<open>\<^verbatim>\<open>parseInt(s, 10)\<close> on a string of digits (the only strings the source gives it).\<close>

definition parseInt :: "string \<Rightarrow> nat" where
  "parseInt s = foldl (\<lambda>n c. 10 * n + digitVal c) 0 s"

text \<open>\<^verbatim>\<open>Number.prototype.toString\<close> on a natural number.\<close>

fun toString :: "nat \<Rightarrow> string" where
  "toString n = (if n < 10 then [digitChar n] else toString (n div 10) @ [digitChar (n mod 10)])"

declare toString.simps [simp del]

text \<open>\<^verbatim>\<open>s.padStart(2, '0')\<close>.\<close>

definition padStart2 :: "string \<Rightarrow> string" where
  "padStart2 s = replicate (2 - length s) CHR ''0'' @ s"

text \<open>\<^verbatim>\<open>String.prototype.toUpperCase\<close> on the letters the source applies it to.\<close>

definition toUpperCase :: "string \<Rightarrow> string" where
  "toUpperCase s =
     map (\<lambda>c. if CHR ''a'' \<le> c \<and> c \<le> CHR ''z'' then char_of (of_char c - (32::nat)) else c) s"

text \<open>\<^verbatim>\<open>s.includes(sub)\<close>: \<open>sub\<close> occurs in \<open>s\<close> as a contiguous substring.\<close>

fun includesStr :: "string \<Rightarrow> string \<Rightarrow> bool" where
  "includesStr [] sub = (sub = [])"
| "includesStr (c # cs) sub = (take (length sub) (c # cs) = sub \<or> includesStr cs sub)"

subsection \<open>Time parser (\<^verbatim>\<open>timeUtils.ts\<close>)\<close>

datatype TimeParseResult = Success string | Failure string

text \<open>
  The common prefix \<^verbatim>\<open>^(\d{1,2}):(\d{2})\<close> of both regular expressions: the two
  captured groups and the rest of the input. The greedy \<^verbatim>\<open>\d{1,2}\<close> must be followed by
  a colon, so the hour group is the whole leading run of digits, of length 1 or 2.
\<close>

definition matchClock :: "string \<Rightarrow> (string \<times> string \<times> string) option" where
  "matchClock s =
     (let hourStr = takeWhile isDigit s;
          r = dropWhile isDigit s;
          minuteStr = take 2 (drop 1 r)
      in if (length hourStr = 1 \<or> length hourStr = 2) \<and> take 1 r = '':''
            \<and> length minuteStr = 2 \<and> list_all isDigit minuteStr
         then Some (hourStr, minuteStr, drop 3 r)
         else None)"

text \<open>\<^verbatim>\<open>(AM|PM)\<close> under the flag \<^verbatim>\<open>i\<close>.\<close>

definition isAmPm :: "string \<Rightarrow> bool" where
  "isAmPm p = (p \<in> set [''AM'', ''Am'', ''aM'', ''am'', ''PM'', ''Pm'', ''pM'', ''pm''])"

text \<open>\<^verbatim>\<open>/^(\d{1,2}):(\d{2})\s*(AM|PM)$/i\<close>\<close>

definition amPmMatch :: "string \<Rightarrow> (string \<times> string \<times> string) option" where
  "amPmMatch s =
     (case matchClock s of
        None \<Rightarrow> None
      | Some (hourStr, minuteStr, rest) \<Rightarrow>
          (let period = dropWhile isSpace rest
           in if isAmPm period then Some (hourStr, minuteStr, period) else None))"

text \<open>\<^verbatim>\<open>/^(\d{1,2}):(\d{2})$/\<close>\<close>

definition twentyFourHourMatch :: "string \<Rightarrow> (string \<times> string) option" where
  "twentyFourHourMatch s =
     (case matchClock s of
        None \<Rightarrow> None
      | Some (hourStr, minuteStr, rest) \<Rightarrow>
          if rest = [] then Some (hourStr, minuteStr) else None)"

definition errRequired :: string where
  "errRequired = ''Time is required''"

definition errHour12 :: string where
  "errHour12 = ''Hour must be between 1 and 12 for AM/PM format''"

definition errHour24 :: string where
  "errHour24 = ''Hour must be between 00 and 23 for 24-hour format''"

definition errMinutes :: string where
  "errMinutes = ''Minutes must be between 00 and 59''"

definition errFormat :: string where
  "errFormat = ''Invalid time format. Use formats like '' @ [CHR 0x22] @ ''9:30'' @ [CHR 0x22]
     @ '', '' @ [CHR 0x22] @ ''09:30'' @ [CHR 0x22] @ '', '' @ [CHR 0x22] @ ''9:30 AM''
     @ [CHR 0x22] @ '', or '' @ [CHR 0x22] @ ''21:30'' @ [CHR 0x22]"

text \<open>The template \<^verbatim>\<open>`${hour.toString().padStart(2, '0')}:${minute.toString().padStart(2, '0')}`\<close>.\<close>

definition clock :: "nat \<Rightarrow> nat \<Rightarrow> string" where
  "clock hour minute = padStart2 (toString hour) @ '':'' @ padStart2 (toString minute)"

definition parseTime :: "string \<Rightarrow> TimeParseResult" where
  "parseTime input =
     (if input = [] then Failure errRequired
      else
        let trimmedInput = trim input in
        if trimmedInput = [] then Failure errRequired
        else
          case amPmMatch trimmedInput of
            Some (hourStr, minuteStr, period) \<Rightarrow>
              (let hour = parseInt hourStr; minute = parseInt minuteStr in
               if hour < 1 \<or> hour > 12 then Failure errHour12
               else if minute < 0 \<or> minute > 59 then Failure errMinutes
               else
                 let hour' =
                   (if toUpperCase period = ''PM'' \<and> hour \<noteq> 12 then hour + 12
                    else if toUpperCase period = ''AM'' \<and> hour = 12 then 0
                    else hour)
                 in Success (clock hour' minute))
          | None \<Rightarrow>
              (case twentyFourHourMatch trimmedInput of
                 Some (hourStr, minuteStr) \<Rightarrow>
                   (let hour = parseInt hourStr; minute = parseInt minuteStr in
                    if hour < 0 \<or> hour > 23 then Failure errHour24
                    else if minute < 0 \<or> minute > 59 then Failure errMinutes
                    else Success (clock hour minute))
               | None \<Rightarrow> Failure errFormat))"

text \<open>
  The conversion of a 12-hour clock reading in the words of the specification: 12 AM is
  hour 0, 12 PM is hour 12, any other PM hour has 12 added, any other AM hour is kept.
\<close>

definition meridiemTo24 :: "string \<Rightarrow> nat \<Rightarrow> nat" where
  "meridiemTo24 p h =
     (if toUpperCase p = ''AM'' then (if h = 12 then 0 else h)
      else (if h = 12 then 12 else h + 12))"

text \<open>
  A canonical time in the words of the specification: exactly \<^verbatim>\<open>HH:MM\<close>, two digits
  each, with the hour in 00..23 and the minute in 00..59.
\<close>

definition canonicalTime :: "string \<Rightarrow> bool" where
  "canonicalTime s =
     (length s = 5 \<and> isDigit (s ! 0) \<and> isDigit (s ! 1) \<and> s ! 2 = CHR '':''
      \<and> isDigit (s ! 3) \<and> isDigit (s ! 4)
      \<and> 10 * digitVal (s ! 0) + digitVal (s ! 1) \<le> 23
      \<and> 10 * digitVal (s ! 3) + digitVal (s ! 4) \<le> 59)"

definition isValidTimeFormat :: "string \<Rightarrow> bool" where
  "isValidTimeFormat t =
     (if t = [] then False
      else case parseTime t of Success r \<Rightarrow> r = t | Failure e \<Rightarrow> False)"

text \<open>
  \<^verbatim>\<open>time.split(':')\<close> destructured into its first two pieces: the text before the first
  colon and the text between the first and the second colon (or the end).
\<close>

definition splitColon :: "string \<Rightarrow> string \<times> string" where
  "splitColon t =
     (takeWhile (\<lambda>c. c \<noteq> CHR '':'') t,
      takeWhile (\<lambda>c. c \<noteq> CHR '':'') (drop 1 (dropWhile (\<lambda>c. c \<noteq> CHR '':'') t)))"

definition formatTimeForDisplay :: "string \<Rightarrow> string" where
  "formatTimeForDisplay t =
     (if \<not> isValidTimeFormat t then t
      else
        let (hourStr, minuteStr) = splitColon t;
            hour = parseInt hourStr;
            minute = parseInt minuteStr;
            period = (if hour \<ge> 12 then ''PM'' else ''AM'');
            displayHour = (if hour = 0 then 12 else if hour > 12 then hour - 12 else hour)
        in toString displayHour @ '':'' @ padStart2 (toString minute) @ '' '' @ period)"

subsection \<open>Data model (\<^verbatim>\<open>types/index.ts\<close>)\<close>

datatype Priority = Low | Medium | High

text \<open>
  \<^verbatim>\<open>TaskFormData\<close> has the fields \<^verbatim>\<open>time\<close>, \<^verbatim>\<open>title\<close> and the optional
  \<^verbatim>\<open>priority\<close>; \<^verbatim>\<open>Task\<close> has the same three and \<^verbatim>\<open>id\<close>, \<^verbatim>\<open>createdAt\<close>. The
  timestamp is an integer number of milliseconds.
\<close>

record TaskFormData =
  time :: string
  title :: string
  priority :: "Priority option"

record Task = TaskFormData +
  id' :: string
  createdAt :: int

record ValidationError =
  field :: string
  message :: string

subsection \<open>Task validator (\<^verbatim>\<open>validationUtils.ts\<close>)\<close>

definition validateTimeField :: "string \<Rightarrow> ValidationError list" where
  "validateTimeField t =
     (if t = [] \<or> trim t = [] then [\<lparr>field = ''time'', message = ''Time is required''\<rparr>]
      else
        case parseTime t of
          Failure e \<Rightarrow>
            [\<lparr>field = ''time'', message = (if e = [] then ''Invalid time format'' else e)\<rparr>]
        | Success r \<Rightarrow> [])"

definition validateTitleField :: "string \<Rightarrow> ValidationError list" where
  "validateTitleField t =
     (let trimmedTitle = trim t in
      if trimmedTitle = [] then [\<lparr>field = ''title'', message = ''Title cannot be empty''\<rparr>]
      else
        (if length trimmedTitle > 200
         then [\<lparr>field = ''title'', message = ''Title must be 200 characters or less''\<rparr>]
         else [])
        @ (if length trimmedTitle < 1
           then [\<lparr>field = ''title'', message = ''Title must be at least 1 character long''\<rparr>]
           else []))"

definition validatePriorityField :: "Priority option \<Rightarrow> ValidationError list" where
  "validatePriorityField p =
     (case p of
        None \<Rightarrow> []
      | Some v \<Rightarrow>
          if \<not> List.member [Low, Medium, High] v
          then [\<lparr>field = ''priority'', message = ''Priority must be one of: low, medium, high''\<rparr>]
          else [])"

definition validateTaskFormData :: "TaskFormData \<Rightarrow> ValidationError list" where
  "validateTaskFormData formData =
     validateTimeField (time formData) @ validateTitleField (title formData)
       @ validatePriorityField (priority formData)"

definition sanitizeTaskFormData :: "TaskFormData \<Rightarrow> TaskFormData" where
  "sanitizeTaskFormData formData =
     (let sanitized =
            \<lparr>time = trim (time formData), title = trim (title formData),
             priority = priority formData\<rparr>
      in case parseTime (time sanitized) of
           Success r \<Rightarrow> if r \<noteq> [] then sanitized\<lparr>time := r\<rparr> else sanitized
         | Failure e \<Rightarrow> sanitized)"

record ValidationResult =
  sanitizedData :: TaskFormData
  errors :: "ValidationError list"
  isValid :: bool

definition validateAndSanitizeTaskFormData :: "TaskFormData \<Rightarrow> ValidationResult" where
  "validateAndSanitizeTaskFormData formData =
     (let sanitized = sanitizeTaskFormData formData;
          errs = validateTaskFormData sanitized
      in \<lparr>sanitizedData = sanitized, errors = errs, isValid = (length errs = 0)\<rparr>)"

subsection \<open>Task sorter (\<^verbatim>\<open>taskUtils.ts\<close>)\<close>

definition PRIORITY_ORDER :: "Priority \<Rightarrow> int" where
  "PRIORITY_ORDER p = (case p of High \<Rightarrow> 3 | Medium \<Rightarrow> 2 | Low \<Rightarrow> 1)"

text \<open>\<^verbatim>\<open>PRIORITY_ORDER[t.priority || 'low']\<close>\<close>

definition weight :: "Task \<Rightarrow> int" where
  "weight t = PRIORITY_ORDER (case priority t of None \<Rightarrow> Low | Some p \<Rightarrow> p)"

text \<open>
  \<^verbatim>\<open>a.localeCompare(b)\<close> is a function of the host: it compares by the collation of the
  locale, not by code units, so it is a parameter \<open>lc\<close> of the comparator and of
  everything that sorts. Its result is negative, zero or positive.
\<close>

text \<open>The comparator given to \<^verbatim>\<open>Array.prototype.sort\<close> in \<^verbatim>\<open>sortTasks\<close>.\<close>

definition compareTasks :: "(string \<Rightarrow> string \<Rightarrow> int) \<Rightarrow> Task \<Rightarrow> Task \<Rightarrow> int" where
  "compareTasks lc a b =
     (let timeComparison = lc (time a) (time b) in
      if timeComparison \<noteq> 0 then timeComparison
      else
        let aPriority = weight a; bPriority = weight b in
        if aPriority \<noteq> bPriority then bPriority - aPriority
        else createdAt a - createdAt b)"

text \<open>
  The total order of the sorter in the words of the specification: ascending by the
  lexicographic order of the time strings; for equal times descending by priority weight;
  for equal times and weights ascending by creation timestamp.
\<close>

definition taskOrder :: "Task \<Rightarrow> Task \<Rightarrow> bool" where
  "taskOrder a b =
     (time a < time b
      \<or> (time a = time b
          \<and> (weight a > weight b \<or> (weight a = weight b \<and> createdAt a \<le> createdAt b))))"

text \<open>
  \<^verbatim>\<open>Array.prototype.sort\<close> with a comparator is a stable sort: an element moves in front
  of another one only when the comparator puts it strictly before. The model is the stable
  insertion sort.
\<close>

fun insertSorted :: "('a \<Rightarrow> 'a \<Rightarrow> int) \<Rightarrow> 'a \<Rightarrow> 'a list \<Rightarrow> 'a list" where
  "insertSorted cmp x [] = [x]"
| "insertSorted cmp x (y # ys) =
     (if cmp x y \<le> 0 then x # y # ys else y # insertSorted cmp x ys)"

definition arraySort :: "('a \<Rightarrow> 'a \<Rightarrow> int) \<Rightarrow> 'a list \<Rightarrow> 'a list" where
  "arraySort cmp xs = foldr (insertSorted cmp) xs []"

definition sortTasks :: "(string \<Rightarrow> string \<Rightarrow> int) \<Rightarrow> Task list \<Rightarrow> Task list" where
  "sortTasks lc tasks = arraySort (compareTasks lc) tasks"

text \<open>The loop of \<^verbatim>\<open>isTaskListSorted\<close> over the neighbours \<^verbatim>\<open>tasks[i - 1]\<close>, \<^verbatim>\<open>tasks[i]\<close>.\<close>

fun isTaskListSorted :: "(string \<Rightarrow> string \<Rightarrow> int) \<Rightarrow> Task list \<Rightarrow> bool" where
  "isTaskListSorted lc (prv # cur # others) =
     (let timeComparison = lc (time prv) (time cur) in
      if timeComparison > 0 then False
      else if timeComparison = 0 \<and> weight prv < weight cur then False
      else if timeComparison = 0 \<and> weight prv = weight cur \<and> createdAt prv > createdAt cur
      then False
      else isTaskListSorted lc (cur # others))"
| "isTaskListSorted lc tasks = True"

text \<open>
  The host's comparison on strings of ASCII digits and colons, for the examples: its
  collation puts the colon before every digit and the digits in the order of their values,
  and compares two such strings position by position, a proper prefix first. Only strings
  of digits and colons are given to \<open>digitColonCompare\<close>.
\<close>

definition collationRank :: "char \<Rightarrow> nat" where
  "collationRank c = (if c = CHR '':'' then 0 else Suc (digitVal c))"

fun digitColonCompare :: "string \<Rightarrow> string \<Rightarrow> int" where
  "digitColonCompare [] [] = 0"
| "digitColonCompare [] (y # ys) = - 1"
| "digitColonCompare (x # xs) [] = 1"
| "digitColonCompare (x # xs) (y # ys) =
     (if collationRank x < collationRank y then - 1
      else if collationRank y < collationRank x then 1
      else digitColonCompare xs ys)"

subsection \<open>Persistent store (\<^verbatim>\<open>useLocalStorage.ts\<close>)\<close>

text \<open>
  What a call of the host's storage may throw: an \<^verbatim>\<open>Error\<close> object with its
  \<^verbatim>\<open>name\<close> and \<^verbatim>\<open>message\<close>, or a value that is not an \<^verbatim>\<open>Error\<close>.
\<close>

datatype Thrown = ErrorObject string string | NonError

text \<open>
  \<^verbatim>\<open>window.localStorage\<close>: the stored items, and for each of its three calls whether it
  throws in this environment.
\<close>

record Storage =
  items :: "string \<rightharpoonup> string"
  getItemThrows :: "Thrown option"
  setItemThrows :: "Thrown option"
  removeItemThrows :: "Thrown option"

definition getItem :: "Storage \<Rightarrow> string \<Rightarrow> Thrown + string option" where
  "getItem st k = (case getItemThrows st of Some e \<Rightarrow> Inl e | None \<Rightarrow> Inr (items st k))"

definition setItem :: "Storage \<Rightarrow> string \<Rightarrow> string \<Rightarrow> Thrown + Storage" where
  "setItem st k v =
     (case setItemThrows st of
        Some e \<Rightarrow> Inl e
      | None \<Rightarrow> Inr (st\<lparr>items := (items st)(k \<mapsto> v)\<rparr>))"

definition removeItem :: "Storage \<Rightarrow> string \<Rightarrow> Thrown + Storage" where
  "removeItem st k =
     (case removeItemThrows st of
        Some e \<Rightarrow> Inl e
      | None \<Rightarrow> Inr (st\<lparr>items := (items st)(k := None)\<rparr>))"

text \<open>The two pieces of React state of the hook.\<close>

record 'a HookState =
  storedValue :: 'a
  error :: "string option"

definition msgCorrupted :: string where
  "msgCorrupted = ''Data was corrupted and has been reset''"

definition msgInaccessible :: string where
  "msgInaccessible = ''Unable to access localStorage''"

definition msgQuota :: string where
  "msgQuota = ''Storage quota exceeded. Please clear some data.''"

definition msgAccess :: string where
  "msgAccess = ''Unable to access localStorage. Data will not persist.''"

definition msgFailed :: string where
  "msgFailed = ''Failed to save data to localStorage''"

definition msgUnknown :: string where
  "msgUnknown = ''Unknown error occurred while saving data''"

text \<open>The \<^verbatim>\<open>catch\<close> block of the load effect.\<close>

definition loadRecover :: "string \<Rightarrow> 'a \<Rightarrow> Storage \<times> 'a HookState \<Rightarrow> Storage \<times> 'a HookState" where
  "loadRecover key initialValue s =
     (case s of (st, h) \<Rightarrow>
        (case removeItem st key of
           Inr st' \<Rightarrow> (st', (h\<lparr>error := Some msgCorrupted\<rparr>)\<lparr>storedValue := initialValue\<rparr>)
         | Inl clearErr \<Rightarrow> (st, (h\<lparr>error := Some msgInaccessible\<rparr>)\<lparr>storedValue := initialValue\<rparr>)))"

text \<open>
  The load effect. \<open>parse\<close> is \<^verbatim>\<open>JSON.parse\<close> at the type of the stored value, with
  \<open>None\<close> for a thrown \<^verbatim>\<open>SyntaxError\<close>. The test \<^verbatim>\<open>if (item)\<close> is false for
  \<^verbatim>\<open>null\<close> and for the empty string.
\<close>

definition loadEffect ::
  "(string \<Rightarrow> 'a option) \<Rightarrow> string \<Rightarrow> 'a \<Rightarrow> Storage \<times> 'a HookState \<Rightarrow> Storage \<times> 'a HookState" where
  "loadEffect parse key initialValue s =
     (case s of (st, h) \<Rightarrow>
        (case getItem st key of
           Inl err \<Rightarrow> loadRecover key initialValue s
         | Inr item \<Rightarrow>
             (case item of
                None \<Rightarrow> s
              | Some i \<Rightarrow>
                  if i = [] then s
                  else
                    (case parse i of
                       None \<Rightarrow> loadRecover key initialValue s
                     | Some parsedValue \<Rightarrow> (st, (h\<lparr>storedValue := parsedValue\<rparr>)\<lparr>error := None\<rparr>)))))"

text \<open>The hook when it mounts: both states at their initial values, then the load effect.\<close>

definition useLocalStorage ::
  "(string \<Rightarrow> 'a option) \<Rightarrow> string \<Rightarrow> 'a \<Rightarrow> Storage \<Rightarrow> Storage \<times> 'a HookState" where
  "useLocalStorage parse key initialValue st =
     loadEffect parse key initialValue (st, \<lparr>storedValue = initialValue, error = None\<rparr>)"

text \<open>The classification in the \<^verbatim>\<open>catch\<close> block of \<^verbatim>\<open>setValue\<close>.\<close>

definition saveErrorMessage :: "Thrown \<Rightarrow> string" where
  "saveErrorMessage err =
     (case err of
        ErrorObject name msg \<Rightarrow>
          if name = ''QuotaExceededError'' \<or> includesStr msg ''quota'' then msgQuota
          else if includesStr msg ''access'' then msgAccess
          else msgFailed
      | NonError \<Rightarrow> msgUnknown)"

text \<open>
  \<^verbatim>\<open>setValue\<close>. \<open>stringify\<close> is \<^verbatim>\<open>JSON.stringify\<close> at the type of the stored value
  (plain data, for which it returns a string).
\<close>

definition setValue ::
  "('a \<Rightarrow> string) \<Rightarrow> string \<Rightarrow> 'a \<Rightarrow> Storage \<times> 'a HookState \<Rightarrow> Storage \<times> 'a HookState" where
  "setValue stringify key v s =
     (case s of (st, h) \<Rightarrow>
        (let h1 = h\<lparr>storedValue := v\<rparr> in
         case setItem st key (stringify v) of
           Inr st' \<Rightarrow> (st', h1\<lparr>error := None\<rparr>)
         | Inl err \<Rightarrow> (st, (h1\<lparr>error := Some (saveErrorMessage err)\<rparr>)\<lparr>storedValue := v\<rparr>)))"

subsection \<open>Task repository (\<^verbatim>\<open>useTasks.ts\<close>)\<close>

text \<open>
  \<^verbatim>\<open>useTasks\<close> calls \<^verbatim>\<open>useLocalStorage<Task[]>(STORAGE_KEY, [])\<close> and hands the setter it
  gets either an updater function (\<^verbatim>\<open>addTask\<close>, \<^verbatim>\<open>updateTask\<close>, \<^verbatim>\<open>deleteTask\<close>) or a
  value (\<^verbatim>\<open>clearAllTasks\<close>). The setter is \<^verbatim>\<open>setValue\<close>, whose parameter is typed as a
  value; what it does with a function is what its body does with any argument:

  \<^item> \<^verbatim>\<open>setStoredValue(arg)\<close> queues a state update. When React renders next it runs the
    queue: a value replaces the state, an updater function is applied to the state, and an
    updater that throws makes the render throw.
  \<^item> \<^verbatim>\<open>JSON.stringify\<close> of a function is \<^verbatim>\<open>undefined\<close>, and \<^verbatim>\<open>setItem\<close> stores its
    argument as a string, so the item becomes the text \<^verbatim>\<open>undefined\<close>.
  \<^item> The dependencies of the load effect are \<^verbatim>\<open>[key, initialValue]\<close>, and
    \<^verbatim>\<open>initialValue\<close> is a fresh \<^verbatim>\<open>[]\<close> at every render of \<^verbatim>\<open>useTasks\<close>: the load effect
    runs again after every render.
\<close>

datatype RepoError = ValidationFailed string | NotFound string

datatype 'a SetterArg = Value 'a | Updater "'a \<Rightarrow> RepoError + 'a"

definition STORAGE_KEY :: string where
  "STORAGE_KEY = ''dayPlannerTasks''"

text \<open>What \<^verbatim>\<open>setItem(key, JSON.stringify(arg))\<close> stores.\<close>

definition serialize :: "('a \<Rightarrow> string) \<Rightarrow> 'a SetterArg \<Rightarrow> string" where
  "serialize stringify arg = (case arg of Value v \<Rightarrow> stringify v | Updater f \<Rightarrow> ''undefined'')"

text \<open>
  One call of \<^verbatim>\<open>setValue(arg)\<close>: the store after it, the queued updates of the stored
  value, and the queued error. The \<^verbatim>\<open>try\<close> block queues the argument once and, when
  \<^verbatim>\<open>setItem\<close> returns, \<^verbatim>\<open>setError(null)\<close>; the \<^verbatim>\<open>catch\<close> block queues the error message
  and the argument a second time.
\<close>

definition setValueCall ::
  "('a \<Rightarrow> string) \<Rightarrow> string \<Rightarrow> 'a SetterArg \<Rightarrow> Storage
     \<Rightarrow> Storage \<times> 'a SetterArg list \<times> string option" where
  "setValueCall stringify key arg st =
     (case setItem st key (serialize stringify arg) of
        Inr st' \<Rightarrow> (st', [arg], None)
      | Inl err \<Rightarrow> (st, [arg, arg], Some (saveErrorMessage err)))"

text \<open>The render runs the queue on the current state.\<close>

fun applyQueue :: "'a SetterArg list \<Rightarrow> 'a \<Rightarrow> RepoError + 'a" where
  "applyQueue [] s = Inr s"
| "applyQueue (Value v # q) s = applyQueue q v"
| "applyQueue (Updater f # q) s = (case f s of Inl e \<Rightarrow> Inl e | Inr s' \<Rightarrow> applyQueue q s')"

text \<open>
  What a call of a repository operation leads to:

  \<^item> \<open>Thrown\<close>: the operation threw to its caller before it reached the setter; store
    and state are the ones before the call.
  \<^item> \<open>RenderThrew\<close>: the call returned, and an updater threw in the render that followed;
    the store is as the call left it, and no state is rendered.
  \<^item> \<open>Committed\<close>: the call returned and the render committed; the store as the call
    left it, the rendered state, and store and state after the load effect ran again.
\<close>

datatype 'a Outcome =
    Thrown RepoError "Storage \<times> 'a HookState"
  | RenderThrew RepoError Storage
  | Committed Storage "'a HookState" "Storage \<times> 'a HookState"

text \<open>
  The setter as \<^verbatim>\<open>useTasks\<close> calls it, with the render and the load effect that follow.
  \<open>parse\<close> and \<open>stringify\<close> are \<^verbatim>\<open>JSON.parse\<close> and \<^verbatim>\<open>JSON.stringify\<close> on task lists.
\<close>

definition setTasks ::
  "(string \<Rightarrow> Task list option) \<Rightarrow> (Task list \<Rightarrow> string) \<Rightarrow> Task list SetterArg
     \<Rightarrow> Storage \<times> Task list HookState \<Rightarrow> Task list Outcome" where
  "setTasks parse stringify arg s =
     (case s of (st, h) \<Rightarrow>
        (case setValueCall stringify STORAGE_KEY arg st of (st', queue, err) \<Rightarrow>
           (case applyQueue queue (storedValue h) of
              Inl e \<Rightarrow> RenderThrew e st'
            | Inr v \<Rightarrow>
                (let rendered = \<lparr>storedValue = v, error = err\<rparr>
                 in Committed st' rendered (loadEffect parse STORAGE_KEY [] (st', rendered))))))"

text \<open>\<^verbatim>\<open>xs.join(', ')\<close>\<close>

fun joinComma :: "string list \<Rightarrow> string" where
  "joinComma [] = []"
| "joinComma [x] = x"
| "joinComma (x # y # ys) = x @ '', '' @ joinComma (y # ys)"

definition validationMessage :: "ValidationError list \<Rightarrow> string" where
  "validationMessage errs = ''Validation failed: '' @ joinComma (map message errs)"

definition notFoundMessage :: "string \<Rightarrow> string" where
  "notFoundMessage i = ''Task with ID '' @ [CHR 0x22] @ i @ [CHR 0x22] @ '' not found''"

text \<open>\<^verbatim>\<open>xs.findIndex(p)\<close>, with \<open>None\<close> for \<^verbatim>\<open>-1\<close>.\<close>

fun findIndex :: "('a \<Rightarrow> bool) \<Rightarrow> 'a list \<Rightarrow> nat option" where
  "findIndex p [] = None"
| "findIndex p (x # xs) =
     (if p x then Some 0 else (case findIndex p xs of None \<Rightarrow> None | Some i \<Rightarrow> Some (Suc i)))"

text \<open>
  The four operations. The fresh id and the clock reading (\<^verbatim>\<open>generateTaskId()\<close>,
  \<^verbatim>\<open>Date.now()\<close>) are parameters; the new task is built before the setter is called.
\<close>

definition addUpdater :: "(string \<Rightarrow> string \<Rightarrow> int) \<Rightarrow> Task \<Rightarrow> Task list \<Rightarrow> RepoError + Task list" where
  "addUpdater lc newTask prevTasks = Inr (sortTasks lc (prevTasks @ [newTask]))"

definition addTask ::
  "(string \<Rightarrow> string \<Rightarrow> int) \<Rightarrow> (string \<Rightarrow> Task list option) \<Rightarrow> (Task list \<Rightarrow> string)
     \<Rightarrow> string \<Rightarrow> int \<Rightarrow> TaskFormData \<Rightarrow> Storage \<times> Task list HookState \<Rightarrow> Task list Outcome" where
  "addTask lc parse stringify newId now taskData s =
     (let validationResult = validateAndSanitizeTaskFormData taskData in
      if \<not> isValid validationResult
      then Thrown (ValidationFailed (validationMessage (errors validationResult))) s
      else
        let sanitized = sanitizedData validationResult;
            newTask = \<lparr>time = time sanitized, title = title sanitized,
                       priority = priority sanitized, id' = newId, createdAt = now\<rparr>
        in setTasks parse stringify (Updater (addUpdater lc newTask)) s)"

definition updateUpdater ::
  "(string \<Rightarrow> string \<Rightarrow> int) \<Rightarrow> string \<Rightarrow> TaskFormData \<Rightarrow> Task list \<Rightarrow> RepoError + Task list" where
  "updateUpdater lc i sanitized prevTasks =
     (case findIndex (\<lambda>task. id' task = i) prevTasks of
        None \<Rightarrow> Inl (NotFound (notFoundMessage i))
      | Some taskIndex \<Rightarrow>
          (let existingTask = prevTasks ! taskIndex;
               updatedTask = existingTask\<lparr>time := time sanitized, title := title sanitized,
                                          priority := priority sanitized\<rparr>;
               updatedTasks = prevTasks[taskIndex := updatedTask]
           in Inr (sortTasks lc updatedTasks)))"

definition updateTask ::
  "(string \<Rightarrow> string \<Rightarrow> int) \<Rightarrow> (string \<Rightarrow> Task list option) \<Rightarrow> (Task list \<Rightarrow> string)
     \<Rightarrow> string \<Rightarrow> TaskFormData \<Rightarrow> Storage \<times> Task list HookState \<Rightarrow> Task list Outcome" where
  "updateTask lc parse stringify i taskData s =
     (let validationResult = validateAndSanitizeTaskFormData taskData in
      if \<not> isValid validationResult
      then Thrown (ValidationFailed (validationMessage (errors validationResult))) s
      else
        let sanitized = sanitizedData validationResult
        in setTasks parse stringify (Updater (updateUpdater lc i sanitized)) s)"

definition deleteUpdater :: "string \<Rightarrow> Task list \<Rightarrow> RepoError + Task list" where
  "deleteUpdater i prevTasks =
     (let taskExists = list_ex (\<lambda>task. id' task = i) prevTasks in
      if \<not> taskExists then Inl (NotFound (notFoundMessage i))
      else Inr (filter (\<lambda>task. id' task \<noteq> i) prevTasks))"

definition deleteTask ::
  "(string \<Rightarrow> Task list option) \<Rightarrow> (Task list \<Rightarrow> string)
     \<Rightarrow> string \<Rightarrow> Storage \<times> Task list HookState \<Rightarrow> Task list Outcome" where
  "deleteTask parse stringify i s = setTasks parse stringify (Updater (deleteUpdater i)) s"

definition clearAllTasks ::
  "(string \<Rightarrow> Task list option) \<Rightarrow> (Task list \<Rightarrow> string)
     \<Rightarrow> Storage \<times> Task list HookState \<Rightarrow> Task list Outcome" where
  "clearAllTasks parse stringify s = setTasks parse stringify (Value []) s"

section \<open>Properties\<close>

subsection \<open>Digits, padding and the shape of the parser's input\<close>

lemma digitChar_table:
  "digitChar 0 = CHR ''0''" "digitChar 1 = CHR ''1''" "digitChar 2 = CHR ''2''"
  "digitChar 3 = CHR ''3''" "digitChar 4 = CHR ''4''" "digitChar 5 = CHR ''5''"
  "digitChar 6 = CHR ''6''" "digitChar 7 = CHR ''7''" "digitChar 8 = CHR ''8''"
  "digitChar 9 = CHR ''9''" "digitChar (Suc 0) = CHR ''1''"
  by (simp_all add: digitChar_def char_of_eq_iff)

lemma isDigit_digitVal: "isDigit c \<Longrightarrow> digitVal c < 10 \<and> digitChar (digitVal c) = c"
  by (auto simp: isDigit_def digitVal_def digitChar_table)

lemma nat_less_10: "(d::nat) < 10 \<Longrightarrow> d \<in> {0, 1, 2, 3, 4, 5, 6, 7, 8, 9}"
  by auto

lemma digitChar_isDigit: "d < 10 \<Longrightarrow> isDigit (digitChar d) \<and> digitVal (digitChar d) = d"
  by (drule nat_less_10) (auto simp: isDigit_def digitVal_def digitChar_table)

lemma not_isDigit_colon: "\<not> isDigit CHR '':''"
  by (simp add: isDigit_def)

lemma isDigit_not_space: "isDigit c \<Longrightarrow> \<not> isSpace c"
  by (auto simp: isDigit_def isSpace_def)

lemma toString_small: "n < 10 \<Longrightarrow> toString n = [digitChar n]"
  by (simp add: toString.simps)

lemma toString_two: "10 \<le> n \<Longrightarrow> n < 100 \<Longrightarrow> toString n = [digitChar (n div 10), digitChar (n mod 10)]"
  by (subst toString.simps) (simp add: toString_small)

lemma padStart2_toString:
  "n < 100 \<Longrightarrow> padStart2 (toString n) = [digitChar (n div 10), digitChar (n mod 10)]"
  by (cases "n < 10") (simp_all add: padStart2_def toString_small toString_two digitChar_table)

lemma clock_chars:
  "h < 100 \<Longrightarrow> m < 100 \<Longrightarrow>
   clock h m = [digitChar (h div 10), digitChar (h mod 10), CHR '':'',
                digitChar (m div 10), digitChar (m mod 10)]"
  by (simp add: clock_def padStart2_toString)

lemma parseInt_two: "parseInt [a, b] = 10 * digitVal a + digitVal b"
  by (simp add: parseInt_def)

lemma parseInt_one: "parseInt [a] = digitVal a"
  by (simp add: parseInt_def)

lemma matchClock_app:
  assumes "length hs = 1 \<or> length hs = 2" "list_all isDigit hs"
    and "length ms = 2" "list_all isDigit ms"
  shows "matchClock (hs @ CHR '':'' # ms @ r) = Some (hs, ms, r)"
proof -
  have tw: "takeWhile isDigit (hs @ CHR '':'' # ms @ r) = hs"
    using assms(2) by (simp add: takeWhile_tail not_isDigit_colon list_all_iff)
  have dw: "dropWhile isDigit (hs @ CHR '':'' # ms @ r) = CHR '':'' # ms @ r"
    using assms(2) by (simp add: dropWhile_append3 not_isDigit_colon list_all_iff)
  show ?thesis
    using assms by (simp add: matchClock_def Let_def tw dw)
qed

lemma trim_id:
  assumes "s \<noteq> []" "\<not> isSpace (hd s)" "\<not> isSpace (last s)"
  shows "trim s = s"
proof -
  have "dropWhile isSpace s = s"
    using assms by (simp add: dropWhile_eq_self_iff)
  moreover have "dropWhile isSpace (rev s) = rev s"
    using assms by (simp add: dropWhile_eq_self_iff hd_rev)
  ultimately show ?thesis
    by (simp add: trim_def)
qed

lemma isAmPm_not_space: "isAmPm p \<Longrightarrow> p \<noteq> [] \<and> \<not> isSpace (hd p) \<and> \<not> isSpace (last p)"
  by (auto simp: isAmPm_def isSpace_def)

lemma not_isAmPm_Nil: "\<not> isAmPm []"
  by (simp add: isAmPm_def)

lemma amPmMatch_app:
  assumes "length hs = 1 \<or> length hs = 2" "list_all isDigit hs"
    and "length ms = 2" "list_all isDigit ms"
    and "list_all isSpace ws" "isAmPm p"
  shows "amPmMatch (hs @ CHR '':'' # ms @ ws @ p) = Some (hs, ms, p)"
proof -
  have "dropWhile isSpace (ws @ p) = p"
    using assms(5) isAmPm_not_space [OF assms(6)]
    by (simp add: dropWhile_append3 list_all_iff dropWhile_eq_self_iff)
  then show ?thesis
    using assms by (simp add: amPmMatch_def matchClock_app)
qed

lemma clock_input_trim:
  assumes "length hs = 1 \<or> length hs = 2" "list_all isDigit hs"
    and "r = [] \<or> \<not> isSpace (last r)" "ms \<noteq> []" "list_all isDigit ms"
  shows "trim (hs @ CHR '':'' # ms @ r) = hs @ CHR '':'' # ms @ r"
proof (rule trim_id)
  show "hs @ CHR '':'' # ms @ r \<noteq> []" by simp
  have "hs \<noteq> []" using assms(1) by auto
  then have "hd (hs @ CHR '':'' # ms @ r) = hd hs" by simp
  moreover have "isDigit (hd hs)"
    using \<open>hs \<noteq> []\<close> assms(2) by (simp add: list_all_iff)
  ultimately show "\<not> isSpace (hd (hs @ CHR '':'' # ms @ r))"
    by (simp add: isDigit_not_space)
  show "\<not> isSpace (last (hs @ CHR '':'' # ms @ r))"
  proof (cases "r = []")
    case True
    then have "last (hs @ CHR '':'' # ms @ r) = last ms"
      using assms(4) by simp
    moreover have "isDigit (last ms)"
      using assms(4,5) by (simp add: list_all_iff)
    ultimately show ?thesis by (simp add: isDigit_not_space)
  next
    case False
    then show ?thesis using assms(3) by simp
  qed
qed

lemma parseTime_ampm_rule:
  assumes "length hs = 1 \<or> length hs = 2" "list_all isDigit hs"
    and "length ms = 2" "list_all isDigit ms"
    and "list_all isSpace ws" "isAmPm p"
  shows "parseTime (hs @ CHR '':'' # ms @ ws @ p) =
     (if parseInt hs < 1 \<or> parseInt hs > 12 then Failure errHour12
      else if parseInt ms > 59 then Failure errMinutes
      else Success (clock
             (if toUpperCase p = ''PM'' \<and> parseInt hs \<noteq> 12 then parseInt hs + 12
              else if toUpperCase p = ''AM'' \<and> parseInt hs = 12 then 0
              else parseInt hs)
             (parseInt ms)))"
proof -
  have ms: "ms \<noteq> []" using assms(3) by auto
  have "trim (hs @ CHR '':'' # ms @ (ws @ p)) = hs @ CHR '':'' # ms @ (ws @ p)"
    using assms(1,2,4) ms isAmPm_not_space [OF assms(6)]
    by (intro clock_input_trim) simp_all
  then show ?thesis
    using assms by (simp add: parseTime_def amPmMatch_app Let_def)
qed

lemma parseTime_24_rule:
  assumes "length hs = 1 \<or> length hs = 2" "list_all isDigit hs"
    and "length ms = 2" "list_all isDigit ms"
  shows "parseTime (hs @ CHR '':'' # ms) =
     (if parseInt hs > 23 then Failure errHour24
      else if parseInt ms > 59 then Failure errMinutes
      else Success (clock (parseInt hs) (parseInt ms)))"
proof -
  have ms: "ms \<noteq> []" using assms(3) by auto
  have m: "matchClock (hs @ CHR '':'' # ms) = Some (hs, ms, [])"
    using matchClock_app [OF assms, of "[]"] by simp
  have "trim (hs @ CHR '':'' # ms @ []) = hs @ CHR '':'' # ms @ []"
    using assms(1,2,4) ms by (intro clock_input_trim) simp_all
  then show ?thesis
    by (simp add: parseTime_def amPmMatch_def twentyFourHourMatch_def m not_isAmPm_Nil Let_def)
qed

lemma parseTime_clock:
  assumes "h \<le> 23" "m \<le> 59"
  shows "parseTime (clock h m) = Success (clock h m)"
proof -
  let ?hs = "[digitChar (h div 10), digitChar (h mod 10)]"
  let ?ms = "[digitChar (m div 10), digitChar (m mod 10)]"
  have c: "clock h m = ?hs @ CHR '':'' # ?ms"
    using assms by (simp add: clock_chars)
  have d: "list_all isDigit ?hs" "list_all isDigit ?ms"
    using assms by (simp_all add: digitChar_isDigit)
  have v: "parseInt ?hs = h" "parseInt ?ms = m"
    using assms by (simp_all add: parseInt_two digitChar_isDigit)
  have "parseTime (?hs @ CHR '':'' # ?ms) = Success (clock h m)"
    using assms by (subst parseTime_24_rule) (simp_all only: d v, simp_all)
  then show ?thesis by (simp only: c)
qed

lemma canonicalTime_clock: "h \<le> 23 \<Longrightarrow> m \<le> 59 \<Longrightarrow> canonicalTime (clock h m)"
  by (simp add: clock_chars canonicalTime_def digitChar_isDigit)

lemma list5: "length s = 5 \<Longrightarrow> s = [s ! 0, s ! 1, s ! 2, s ! 3, s ! 4]"
  by (auto simp: list_eq_iff_nth_eq less_Suc_eq numeral_eq_Suc)

lemma canonicalTime_imp_clock:
  assumes "canonicalTime s"
  shows "s = clock (10 * digitVal (s ! 0) + digitVal (s ! 1)) (10 * digitVal (s ! 3) + digitVal (s ! 4))"
proof -
  let ?h = "10 * digitVal (s ! 0) + digitVal (s ! 1)"
  let ?m = "10 * digitVal (s ! 3) + digitVal (s ! 4)"
  have d: "digitVal (s ! 0) < 10" "digitVal (s ! 1) < 10" "digitVal (s ! 3) < 10" "digitVal (s ! 4) < 10"
    using assms by (simp_all add: canonicalTime_def isDigit_digitVal)
  have "clock ?h ?m = [s ! 0, s ! 1, CHR '':'', s ! 3, s ! 4]"
    using assms d by (simp add: clock_chars canonicalTime_def isDigit_digitVal)
  also have "\<dots> = s"
    using assms list5 [of s] by (simp add: canonicalTime_def)
  finally show ?thesis by simp
qed

lemma parseTime_Success_canonical:
  assumes "parseTime t = Success r"
  shows "canonicalTime r"
  using assms
  by (auto simp: parseTime_def Let_def not_less canonicalTime_clock
      split: if_splits option.splits prod.splits)

lemma parseTime_canonical:
  assumes "canonicalTime s"
  shows "parseTime s = Success s"
proof -
  have "parseTime (clock (10 * digitVal (s ! 0) + digitVal (s ! 1)) (10 * digitVal (s ! 3) + digitVal (s ! 4)))
        = Success (clock (10 * digitVal (s ! 0) + digitVal (s ! 1)) (10 * digitVal (s ! 3) + digitVal (s ! 4)))"
    using assms by (intro parseTime_clock) (simp_all add: canonicalTime_def)
  then show ?thesis
    using canonicalTime_imp_clock [OF assms] by simp
qed

lemma isValidTimeFormat_iff: "isValidTimeFormat t = canonicalTime t"
proof
  assume "isValidTimeFormat t"
  then have "parseTime t = Success t"
    by (auto simp: isValidTimeFormat_def split: if_splits TimeParseResult.splits)
  then show "canonicalTime t" by (rule parseTime_Success_canonical)
next
  assume c: "canonicalTime t"
  then have "t \<noteq> []" by (auto simp: canonicalTime_def)
  then show "isValidTimeFormat t"
    using parseTime_canonical [OF c] by (simp add: isValidTimeFormat_def)
qed

lemma isAmPm_upper: "isAmPm p \<Longrightarrow> toUpperCase p = ''AM'' \<or> toUpperCase p = ''PM''"
  by (auto simp: isAmPm_def toUpperCase_def char_of_eq_iff)

lemma toString_digits:
  assumes "n < 100"
  shows "(length (toString n) = 1 \<or> length (toString n) = 2) \<and> list_all isDigit (toString n)
         \<and> parseInt (toString n) = n"
proof (cases "n < 10")
  case True
  then show ?thesis
    by (simp add: toString_small digitChar_isDigit parseInt_one)
next
  case False
  then show ?thesis
    using assms by (simp add: toString_two digitChar_isDigit parseInt_two)
qed

lemma padStart2_digits:
  assumes "n < 100"
  shows "length (padStart2 (toString n)) = 2 \<and> list_all isDigit (padStart2 (toString n))
         \<and> parseInt (padStart2 (toString n)) = n"
  using assms by (simp add: padStart2_toString digitChar_isDigit parseInt_two)

lemma digitChar_not_colon: "d < 10 \<Longrightarrow> digitChar d \<noteq> CHR '':''"
  using digitChar_isDigit [of d] not_isDigit_colon by auto

lemma splitColon_clock:
  assumes "h < 100" "m < 100"
  shows "splitColon (clock h m) =
         ([digitChar (h div 10), digitChar (h mod 10)], [digitChar (m div 10), digitChar (m mod 10)])"
  using assms by (simp add: clock_chars splitColon_def digitChar_not_colon)

lemma formatTimeForDisplay_clock:
  assumes "h \<le> 23" "m \<le> 59"
  shows "formatTimeForDisplay (clock h m) =
         toString (if h = 0 then 12 else if h > 12 then h - 12 else h) @ '':''
           @ padStart2 (toString m) @ '' '' @ (if h \<ge> 12 then ''PM'' else ''AM'')"
proof -
  have v: "isValidTimeFormat (clock h m)"
    using assms by (simp add: isValidTimeFormat_iff canonicalTime_clock)
  have s: "splitColon (clock h m) =
         ([digitChar (h div 10), digitChar (h mod 10)], [digitChar (m div 10), digitChar (m mod 10)])"
    using assms by (intro splitColon_clock) simp_all
  have p: "parseInt [digitChar (h div 10), digitChar (h mod 10)] = h"
          "parseInt [digitChar (m div 10), digitChar (m mod 10)] = m"
    using assms by (simp_all add: parseInt_two digitChar_isDigit)
  show ?thesis
    by (simp add: formatTimeForDisplay_def v s p Let_def)
qed

lemma parseTime_display:
  assumes "h \<le> 23" "m \<le> 59"
  shows "parseTime (formatTimeForDisplay (clock h m)) = Success (clock h m)"
proof -
  let ?d = "if h = 0 then 12 else if h > 12 then h - 12 else h"
  let ?p = "if h \<ge> 12 then ''PM'' else ''AM''"
  have d: "?d < 100" "1 \<le> ?d" "?d \<le> 12" using assms by auto
  have m: "m < 100" using assms by simp
  have ap: "isAmPm ?p" by (simp add: isAmPm_def)
  have up: "toUpperCase ?p = ?p" by (simp add: toUpperCase_def)
  have "formatTimeForDisplay (clock h m)
        = toString ?d @ CHR '':'' # padStart2 (toString m) @ '' '' @ ?p"
    using assms by (simp add: formatTimeForDisplay_clock)
  moreover have "parseTime (toString ?d @ CHR '':'' # padStart2 (toString m) @ '' '' @ ?p)
        = Success (clock h m)"
    using toString_digits [OF d(1)] padStart2_digits [OF m] ap d(2,3) assms up
    by (subst parseTime_ampm_rule) (auto simp: isSpace_def)
  ultimately show ?thesis by simp
qed

lemma digitChar_nonzero:
  assumes "1 \<le> d" "d < 10"
  shows "digitChar d \<noteq> CHR ''0''"
proof
  assume "digitChar d = CHR ''0''"
  then have "digitVal (digitChar d) = 0" by (simp add: digitVal_def)
  then show False using assms digitChar_isDigit [of d] by simp
qed

lemma hd_toString_nonzero:
  assumes "1 \<le> n" "n < 100"
  shows "hd (toString n) \<noteq> CHR ''0''"
proof (cases "n < 10")
  case True
  then show ?thesis using assms by (simp add: toString_small digitChar_nonzero)
next
  case False
  then have "1 \<le> n div 10" "n div 10 < 10" using assms by auto
  then show ?thesis using False assms by (simp add: toString_two digitChar_nonzero)
qed

lemma parseTime_examples:
  "parseTime ''9:30'' = Success ''09:30''"
  "parseTime ''9:30 AM'' = Success ''09:30''"
  "parseTime ''9:30 PM'' = Success ''21:30''"
  "parseTime ''12:00 AM'' = Success ''00:00''"
  "parseTime ''12:00 PM'' = Success ''12:00''"
  "parseTime ''25:00'' = Failure ''Hour must be between 00 and 23 for 24-hour format''"
  "parseTime ''09:60'' = Failure ''Minutes must be between 00 and 59''"
  by code_simp+

subsection \<open>The time parser\<close>

text \<open>
  C3. Every string of the exact form \<^verbatim>\<open>HH:MM\<close> with the hour in 00..23 and the minute in
  00..59 is parsed successfully to itself, and \<open>isValidTimeFormat\<close> is true for exactly
  these strings: it is false for \<^verbatim>\<open>9:30\<close> and \<^verbatim>\<open>9:30 AM\<close>, which both parse.
\<close>

theorem canonical_times_valid:
  "(canonicalTime s \<longrightarrow> parseTime s = Success s)
   \<and> isValidTimeFormat t = canonicalTime t
   \<and> parseTime ''9:30'' = Success ''09:30'' \<and> \<not> isValidTimeFormat ''9:30''
   \<and> parseTime ''9:30 AM'' = Success ''09:30'' \<and> \<not> isValidTimeFormat ''9:30 AM''"
proof -
  have "\<not> canonicalTime ''9:30''" "\<not> canonicalTime ''9:30 AM''"
    by (simp_all add: canonicalTime_def)
  then show ?thesis
    by (simp add: parseTime_canonical isValidTimeFormat_iff parseTime_examples)
qed

theorem canonical_times_valid_witness:
  "canonicalTime ''23:59'' \<and> parseTime ''23:59'' = Success ''23:59''
   \<and> isValidTimeFormat ''23:59''"
proof -
  have c: "canonicalTime ''23:59''"
    by (simp add: canonicalTime_def isDigit_def digitVal_def)
  show ?thesis
    using c canonical_times_valid [of "''23:59''" "''23:59''"] by simp
qed

text \<open>
  C4. An input of one or two hour digits, a colon, two minute digits, optional white space
  and a meridiem in either case is converted by the rule of \<open>meridiemTo24\<close>; an hour
  outside 1..12 fails with the hour-range error of the 12-hour format and, the hour
  being in range, a minute above 59 fails with the minute-range error. The five examples
  of the specification evaluate as it says.
\<close>

theorem parseTime_meridiem:
  "((length hs = 1 \<or> length hs = 2) \<and> list_all isDigit hs \<and> length ms = 2 \<and> list_all isDigit ms
      \<and> list_all isSpace ws \<and> isAmPm p \<longrightarrow>
    parseTime (hs @ '':'' @ ms @ ws @ p) =
      (if parseInt hs < 1 \<or> parseInt hs > 12 then Failure errHour12
       else if parseInt ms > 59 then Failure errMinutes
       else Success (clock (meridiemTo24 p (parseInt hs)) (parseInt ms))))
   \<and> parseTime ''9:30 PM'' = Success ''21:30''
   \<and> parseTime ''12:00 AM'' = Success ''00:00''
   \<and> parseTime ''12:00 PM'' = Success ''12:00''
   \<and> parseTime ''25:00'' = Failure ''Hour must be between 00 and 23 for 24-hour format''
   \<and> parseTime ''09:60'' = Failure ''Minutes must be between 00 and 59''"
proof -
  have "parseTime (hs @ '':'' @ ms @ ws @ p) =
      (if parseInt hs < 1 \<or> parseInt hs > 12 then Failure errHour12
       else if parseInt ms > 59 then Failure errMinutes
       else Success (clock (meridiemTo24 p (parseInt hs)) (parseInt ms)))"
    if a: "length hs = 1 \<or> length hs = 2" "list_all isDigit hs" "length ms = 2"
      "list_all isDigit ms" "list_all isSpace ws" "isAmPm p"
  proof -
    have "toUpperCase p = ''AM'' \<or> toUpperCase p = ''PM''"
      using a(6) by (rule isAmPm_upper)
    then show ?thesis
      using parseTime_ampm_rule [OF a] by (auto simp: meridiemTo24_def)
  qed
  then show ?thesis
    by (simp add: parseTime_examples)
qed

theorem parseTime_meridiem_witness:
  "list_all isDigit ''11'' \<and> list_all isDigit ''05'' \<and> list_all isSpace '' '' \<and> isAmPm ''pm''
   \<and> parseTime ''11:05 pm'' = Success ''23:05''"
proof -
  have h: "list_all isDigit ''11''" "list_all isDigit ''05''" "list_all isSpace '' ''" "isAmPm ''pm''"
    by (simp_all add: isDigit_def isSpace_def isAmPm_def)
  have v: "parseInt ''11'' = 11" "parseInt ''05'' = 5" "meridiemTo24 ''pm'' 11 = 23"
    "clock 23 5 = ''23:05''"
    by code_simp+
  show ?thesis
    using h parseTime_meridiem [of "''11''" "''05''" "'' ''" "''pm''"]
    by (simp add: v)
qed

text \<open>
  C9. For a canonical time \<open>T\<close> the display form is the hour 1..12 without a leading
  zero, a colon, the two-digit minute, a space and AM or PM, and parsing it gives back
  exactly \<open>T\<close>; every other input is returned unchanged. The function is total: it never
  throws.
\<close>

theorem display_round_trip:
  "(canonicalTime T \<longrightarrow>
      (\<exists>h m p. 1 \<le> h \<and> h \<le> 12 \<and> m \<le> 59 \<and> (p = ''AM'' \<or> p = ''PM'')
         \<and> formatTimeForDisplay T = toString h @ '':'' @ padStart2 (toString m) @ '' '' @ p)
      \<and> hd (formatTimeForDisplay T) \<noteq> CHR ''0''
      \<and> parseTime (formatTimeForDisplay T) = Success T)
   \<and> (\<not> canonicalTime T \<longrightarrow> formatTimeForDisplay T = T)"
proof (intro conjI impI)
  assume c: "canonicalTime T"
  define h where "h = 10 * digitVal (T ! 0) + digitVal (T ! 1)"
  define m where "m = 10 * digitVal (T ! 3) + digitVal (T ! 4)"
  have T: "T = clock h m"
    unfolding h_def m_def using c by (rule canonicalTime_imp_clock)
  have hm: "h \<le> 23" "m \<le> 59"
    using c by (simp_all add: canonicalTime_def h_def m_def)
  let ?d = "if h = 0 then 12 else if h > 12 then h - 12 else h"
  let ?p = "if h \<ge> 12 then ''PM'' else ''AM''"
  have f: "formatTimeForDisplay T = toString ?d @ '':'' @ padStart2 (toString m) @ '' '' @ ?p"
    unfolding T using hm by (rule formatTimeForDisplay_clock)
  have d: "1 \<le> ?d" "?d \<le> 12" using hm by auto
  have "1 \<le> ?d \<and> ?d \<le> 12 \<and> m \<le> 59 \<and> (?p = ''AM'' \<or> ?p = ''PM'')
         \<and> formatTimeForDisplay T = toString ?d @ '':'' @ padStart2 (toString m) @ '' '' @ ?p"
    using d hm f by simp
  then show "\<exists>h m p. 1 \<le> h \<and> h \<le> 12 \<and> m \<le> 59 \<and> (p = ''AM'' \<or> p = ''PM'')
         \<and> formatTimeForDisplay T = toString h @ '':'' @ padStart2 (toString m) @ '' '' @ p"
    by blast
  have "hd (toString ?d) \<noteq> CHR ''0''"
    using d by (intro hd_toString_nonzero) auto
  moreover have "toString ?d \<noteq> []"
    using toString_digits [of ?d] d by auto
  ultimately show "hd (formatTimeForDisplay T) \<noteq> CHR ''0''"
    by (simp add: f)
  show "parseTime (formatTimeForDisplay T) = Success T"
    unfolding T using hm by (rule parseTime_display)
next
  assume "\<not> canonicalTime T"
  then show "formatTimeForDisplay T = T"
    by (simp add: formatTimeForDisplay_def isValidTimeFormat_iff)
qed

theorem display_round_trip_witness:
  "canonicalTime ''13:30'' \<and> formatTimeForDisplay ''13:30'' = ''1:30 PM''
   \<and> parseTime (formatTimeForDisplay ''13:30'') = Success ''13:30''
   \<and> \<not> canonicalTime ''9:30'' \<and> formatTimeForDisplay ''9:30'' = ''9:30''"
proof -
  have c: "canonicalTime ''13:30''" "\<not> canonicalTime ''9:30''"
    by (simp_all add: canonicalTime_def isDigit_def digitVal_def)
  have f: "formatTimeForDisplay ''13:30'' = ''1:30 PM''"
    by code_simp
  show ?thesis
    using c f display_round_trip [of "''13:30''"] display_round_trip [of "''9:30''"]
    by simp
qed

subsection \<open>The validator\<close>

lemma last_dropWhile: "dropWhile P xs \<noteq> [] \<Longrightarrow> last (dropWhile P xs) = last xs"
  by (induction xs) (auto split: if_splits)

lemma trim_ends:
  assumes "trim s \<noteq> []"
  shows "\<not> isSpace (hd (trim s)) \<and> \<not> isSpace (last (trim s))"
proof -
  let ?u = "dropWhile isSpace s"
  let ?w = "dropWhile isSpace (rev ?u)"
  have w: "?w \<noteq> []" using assms by (simp add: trim_def)
  have u: "?u \<noteq> []"
  proof
    assume e: "?u = []"
    have "?w = []" unfolding e by simp
    with w show False by blast
  qed
  have "\<not> isSpace (hd ?w)" using w by (rule hd_dropWhile)
  then have l: "\<not> isSpace (last (trim s))"
    using w by (simp add: trim_def last_rev)
  have "last ?w = last (rev ?u)" using w by (rule last_dropWhile)
  also have "\<dots> = hd ?u" using u by (simp add: last_rev)
  finally have "hd (trim s) = hd ?u"
    using w by (simp add: trim_def hd_rev)
  moreover have "\<not> isSpace (hd ?u)" using u by (rule hd_dropWhile)
  ultimately show ?thesis using l by simp
qed

lemma trim_Nil: "trim [] = []"
  by (simp add: trim_def)

lemma trim_trim: "trim (trim s) = trim s"
proof (cases "trim s = []")
  case True
  then show ?thesis by (simp add: trim_Nil)
next
  case False
  then show ?thesis using trim_ends [OF False] by (intro trim_id) simp_all
qed

lemma parseTime_trim: "parseTime (trim x) = parseTime x"
proof (cases "trim x = []")
  case True
  then show ?thesis by (simp add: parseTime_def trim_Nil)
next
  case False
  then have "x \<noteq> []" by (auto simp: trim_Nil)
  then show ?thesis using False by (simp add: parseTime_def trim_trim)
qed

lemma canonicalTime_trim: "canonicalTime r \<Longrightarrow> r \<noteq> [] \<and> trim r = r"
proof -
  assume c: "canonicalTime r"
  have "length r = 5" using c by (simp add: canonicalTime_def)
  then have r: "r = [r ! 0, r ! 1, r ! 2, r ! 3, r ! 4]" by (rule list5)
  have "r \<noteq> []" using c by (auto simp: canonicalTime_def)
  moreover have "hd r = r ! 0" "last r = r ! 4"
    by (subst r, simp)+
  ultimately show ?thesis
    using c by (simp add: trim_id canonicalTime_def isDigit_not_space)
qed

lemma validateTimeField_canonical: "canonicalTime r \<Longrightarrow> validateTimeField r = []"
  by (simp add: validateTimeField_def canonicalTime_trim parseTime_canonical)

lemma validateTimeField_failure:
  assumes "parseTime x = Failure e"
  shows "validateTimeField (trim x) \<noteq> []"
  using assms by (simp add: validateTimeField_def parseTime_trim trim_trim)

lemma sanitize_time:
  "time (sanitizeTaskFormData fd) =
     (case parseTime (time fd) of Success r \<Rightarrow> r | Failure e \<Rightarrow> trim (time fd))"
proof (cases "parseTime (time fd)")
  case (Success r)
  then have "r \<noteq> []" using parseTime_Success_canonical [OF Success] by (auto simp: canonicalTime_def)
  then show ?thesis using Success by (simp add: sanitizeTaskFormData_def parseTime_trim)
next
  case (Failure e)
  then show ?thesis by (simp add: sanitizeTaskFormData_def parseTime_trim)
qed

lemma sanitize_title: "title (sanitizeTaskFormData fd) = trim (title fd)"
  by (simp add: sanitizeTaskFormData_def Let_def split: TimeParseResult.splits)

lemma sanitize_priority: "priority (sanitizeTaskFormData fd) = priority fd"
  by (simp add: sanitizeTaskFormData_def Let_def split: TimeParseResult.splits)

text \<open>
  C7. \<open>validateAndSanitizeTaskFormData\<close> validates the sanitized data, and is valid exactly
  when that gives no error. Sanitizing trims the title and the time and keeps the priority.
  When the trimmed time parses, the sanitized time is the parser's canonical output and
  the time field passes, so the data are valid exactly when title and priority are; when
  it does not parse, the sanitized time is the trimmed input and validation fails. The
  padded 12-hour time \<^verbatim>\<open>"  9:30 AM  "\<close> becomes \<^verbatim>\<open>09:30\<close> and passes.
\<close>

theorem sanitize_then_validate:
  "validateAndSanitizeTaskFormData fd =
     \<lparr>sanitizedData = sanitizeTaskFormData fd,
      errors = validateTaskFormData (sanitizeTaskFormData fd),
      isValid = (validateTaskFormData (sanitizeTaskFormData fd) = [])\<rparr>
   \<and> title (sanitizeTaskFormData fd) = trim (title fd)
   \<and> priority (sanitizeTaskFormData fd) = priority fd
   \<and> (parseTime (trim (time fd)) = Success r \<longrightarrow>
        time (sanitizeTaskFormData fd) = r \<and> canonicalTime r
        \<and> validateTimeField (time (sanitizeTaskFormData fd)) = []
        \<and> isValid (validateAndSanitizeTaskFormData fd) =
            (validateTitleField (trim (title fd)) = [] \<and> validatePriorityField (priority fd) = []))
   \<and> (parseTime (trim (time fd)) = Failure e \<longrightarrow>
        time (sanitizeTaskFormData fd) = trim (time fd)
        \<and> validateTimeField (time (sanitizeTaskFormData fd)) \<noteq> []
        \<and> \<not> isValid (validateAndSanitizeTaskFormData fd))
   \<and> sanitizeTaskFormData \<lparr>time = ''  9:30 AM  '', title = '' Gym '', priority = None\<rparr>
        = \<lparr>time = ''09:30'', title = ''Gym'', priority = None\<rparr>
   \<and> isValid (validateAndSanitizeTaskFormData
        \<lparr>time = ''  9:30 AM  '', title = '' Gym '', priority = None\<rparr>)"
proof -
  have a: "validateAndSanitizeTaskFormData fd =
     \<lparr>sanitizedData = sanitizeTaskFormData fd,
      errors = validateTaskFormData (sanitizeTaskFormData fd),
      isValid = (validateTaskFormData (sanitizeTaskFormData fd) = [])\<rparr>"
    by (simp add: validateAndSanitizeTaskFormData_def Let_def)
  have v: "isValid (validateAndSanitizeTaskFormData fd) =
      (validateTimeField (time (sanitizeTaskFormData fd)) = []
       \<and> validateTitleField (trim (title fd)) = [] \<and> validatePriorityField (priority fd) = [])"
    by (simp add: a validateTaskFormData_def sanitize_title sanitize_priority)
  have s: "time (sanitizeTaskFormData fd) = r \<and> canonicalTime r
        \<and> validateTimeField (time (sanitizeTaskFormData fd)) = []
        \<and> isValid (validateAndSanitizeTaskFormData fd) =
            (validateTitleField (trim (title fd)) = [] \<and> validatePriorityField (priority fd) = [])"
    if p: "parseTime (trim (time fd)) = Success r"
  proof -
    have p': "parseTime (time fd) = Success r" using p by (simp add: parseTime_trim)
    have c: "canonicalTime r" using p' by (rule parseTime_Success_canonical)
    have t: "time (sanitizeTaskFormData fd) = r" using p' by (simp add: sanitize_time)
    show ?thesis by (simp add: v t c validateTimeField_canonical)
  qed
  have f: "time (sanitizeTaskFormData fd) = trim (time fd)
        \<and> validateTimeField (time (sanitizeTaskFormData fd)) \<noteq> []
        \<and> \<not> isValid (validateAndSanitizeTaskFormData fd)"
    if p: "parseTime (trim (time fd)) = Failure e"
  proof -
    have p': "parseTime (time fd) = Failure e" using p by (simp add: parseTime_trim)
    have t: "time (sanitizeTaskFormData fd) = trim (time fd)" using p' by (simp add: sanitize_time)
    show ?thesis using validateTimeField_failure [OF p'] by (simp add: v t)
  qed
  have e1: "sanitizeTaskFormData \<lparr>time = ''  9:30 AM  '', title = '' Gym '', priority = None\<rparr>
        = \<lparr>time = ''09:30'', title = ''Gym'', priority = None\<rparr>"
    by code_simp
  have e2: "isValid (validateAndSanitizeTaskFormData
        \<lparr>time = ''  9:30 AM  '', title = '' Gym '', priority = None\<rparr>)"
    by code_simp
  show ?thesis
    using a s f e1 e2 sanitize_title sanitize_priority by blast
qed

theorem sanitize_then_validate_witness:
  "parseTime (trim ''21:30 '') = Success ''21:30''
   \<and> time (sanitizeTaskFormData \<lparr>time = ''21:30 '', title = ''a'', priority = None\<rparr>) = ''21:30''
   \<and> parseTime (trim ''noon'') = Failure errFormat
   \<and> \<not> isValid (validateAndSanitizeTaskFormData \<lparr>time = ''noon'', title = ''a'', priority = None\<rparr>)"
proof -
  have p: "parseTime (trim ''21:30 '') = Success ''21:30''" "parseTime (trim ''noon'') = Failure errFormat"
    by code_simp+
  have "time (sanitizeTaskFormData \<lparr>time = ''21:30 '', title = ''a'', priority = None\<rparr>) = ''21:30''"
    using p(1)
      sanitize_then_validate [of "\<lparr>time = ''21:30 '', title = ''a'', priority = None\<rparr>" "''21:30''" e]
    by (simp only: TaskFormData.select_convs)
  moreover have "\<not> isValid (validateAndSanitizeTaskFormData \<lparr>time = ''noon'', title = ''a'', priority = None\<rparr>)"
    using p(2)
      sanitize_then_validate [of "\<lparr>time = ''noon'', title = ''a'', priority = None\<rparr>" r errFormat,
        THEN conjunct2, THEN conjunct2, THEN conjunct2, THEN conjunct2, THEN conjunct1]
    by (simp only: TaskFormData.select_convs, simp)
  ultimately show ?thesis
    using p by blast
qed

subsection \<open>The sorter\<close>

lemma compareTasks_le:
  assumes "(lc (time a) (time b) < 0) = (time a < time b)" "(lc (time a) (time b) = 0) = (time a = time b)"
  shows "(compareTasks lc a b \<le> 0) = taskOrder a b"
  using assms by (auto simp: compareTasks_def taskOrder_def Let_def)

lemma taskOrder_trans: "taskOrder a b \<Longrightarrow> taskOrder b c \<Longrightarrow> taskOrder a c"
  by (auto simp: taskOrder_def)

lemma taskOrder_total: "taskOrder a b \<or> taskOrder b a"
  by (auto simp: taskOrder_def)

lemma set_insertSorted: "set (insertSorted cmp x ys) = insert x (set ys)"
  by (induction ys) auto

lemma set_arraySort: "set (arraySort cmp xs) = set xs"
  by (induction xs) (simp_all add: arraySort_def set_insertSorted)

lemma mset_insertSorted: "mset (insertSorted cmp x ys) = add_mset x (mset ys)"
  by (induction ys) auto

lemma mset_arraySort: "mset (arraySort cmp xs) = mset xs"
  by (induction xs) (simp_all add: arraySort_def mset_insertSorted)

lemma sorted_insertSorted:
  assumes le: "\<And>y. y \<in> set ys \<Longrightarrow> (cmp x y \<le> 0) = taskOrder x y"
    and "sorted_wrt taskOrder ys"
  shows "sorted_wrt taskOrder (insertSorted cmp x ys)"
  using assms
proof (induction ys)
  case Nil
  then show ?case by simp
next
  case (Cons y ys)
  show ?case
  proof (cases "cmp x y \<le> 0")
    case True
    then have xy: "taskOrder x y" using Cons.prems(1) [of y] by simp
    have "\<forall>z\<in>set ys. taskOrder x z"
      using Cons.prems(2) xy by (auto intro: taskOrder_trans)
    then show ?thesis using True xy Cons.prems(2) by simp
  next
    case False
    then have "\<not> taskOrder x y" using Cons.prems(1) [of y] by simp
    then have "taskOrder y x" using taskOrder_total [of x y] by simp
    moreover have "sorted_wrt taskOrder (insertSorted cmp x ys)"
      using Cons.prems by (intro Cons.IH) simp_all
    ultimately show ?thesis
      using False Cons.prems(2) by (simp add: set_insertSorted)
  qed
qed

lemma sorted_sortTasks:
  assumes lc: "\<And>a b. canonicalTime a \<Longrightarrow> canonicalTime b \<Longrightarrow> (lc a b < 0) = (a < b) \<and> (lc a b = 0) = (a = b)"
    and "list_all (\<lambda>t. canonicalTime (time t)) ts"
  shows "sorted_wrt taskOrder (sortTasks lc ts)"
  using assms(2)
proof (induction ts)
  case Nil
  then show ?case by (simp add: sortTasks_def arraySort_def)
next
  case (Cons x xs)
  have s: "sorted_wrt taskOrder (arraySort (compareTasks lc) xs)"
    using Cons by (simp add: sortTasks_def)
  have "(compareTasks lc x y \<le> 0) = taskOrder x y" if "y \<in> set (arraySort (compareTasks lc) xs)" for y
  proof -
    have "canonicalTime (time x)" "canonicalTime (time y)"
      using Cons.prems that by (auto simp: set_arraySort list_all_iff)
    then show ?thesis using lc [of "time x" "time y"] by (intro compareTasks_le) simp_all
  qed
  then have "sorted_wrt taskOrder (insertSorted (compareTasks lc) x (arraySort (compareTasks lc) xs))"
    using s by (rule sorted_insertSorted)
  then show ?case by (simp add: sortTasks_def arraySort_def)
qed

lemma filter_insertSorted:
  assumes "\<And>y. y \<in> set ys \<Longrightarrow> P x \<Longrightarrow> P y \<Longrightarrow> cmp x y \<le> 0"
  shows "filter P (insertSorted cmp x ys) = filter P (x # ys)"
  using assms by (induction ys) auto

lemma filter_arraySort:
  assumes "\<And>x y. x \<in> set xs \<Longrightarrow> y \<in> set xs \<Longrightarrow> P x \<Longrightarrow> P y \<Longrightarrow> cmp x y \<le> 0"
  shows "filter P (arraySort cmp xs) = filter P xs"
  using assms
proof (induction xs)
  case Nil
  then show ?case by (simp add: arraySort_def)
next
  case (Cons x xs)
  have "filter P (insertSorted cmp x (arraySort cmp xs)) = filter P (x # arraySort cmp xs)"
    using Cons.prems by (intro filter_insertSorted) (simp add: set_arraySort)
  moreover have "filter P (arraySort cmp xs) = filter P xs"
    using Cons.prems by (intro Cons.IH) simp
  ultimately show ?case by (simp add: arraySort_def)
qed

lemma sortTasks_stable:
  assumes lc: "\<And>a b. canonicalTime a \<Longrightarrow> canonicalTime b \<Longrightarrow> (lc a b < 0) = (a < b) \<and> (lc a b = 0) = (a = b)"
    and c: "list_all (\<lambda>t. canonicalTime (time t)) ts"
  shows "filter (\<lambda>t. time t = tm \<and> weight t = w \<and> createdAt t = c) (sortTasks lc ts)
   = filter (\<lambda>t. time t = tm \<and> weight t = w \<and> createdAt t = c) ts"
  unfolding sortTasks_def
proof (rule filter_arraySort)
  fix x y
  assume "x \<in> set ts" "y \<in> set ts"
    and "time x = tm \<and> weight x = w \<and> createdAt x = c" "time y = tm \<and> weight y = w \<and> createdAt y = c"
  moreover from this c have "lc (time x) (time y) = 0"
    using lc [of "time x" "time y"] by (auto simp: list_all_iff)
  ultimately show "compareTasks lc x y \<le> 0"
    by (simp add: compareTasks_def)
qed

lemma sortTasks_three:
  assumes lc: "\<And>a b. canonicalTime a \<Longrightarrow> canonicalTime b \<Longrightarrow> (lc a b < 0) = (a < b) \<and> (lc a b = 0) = (a = b)"
    and "time x = ''14:00''" "time y = ''09:00''" "time z = ''12:00''"
  shows "map time (sortTasks lc [x, y, z]) = [''09:00'', ''12:00'', ''14:00'']"
proof -
  have c: "canonicalTime ''14:00''" "canonicalTime ''09:00''" "canonicalTime ''12:00''"
    by (simp_all add: canonicalTime_def isDigit_def digitVal_def)
  have "lc ''09:00'' ''12:00'' < 0" "\<not> lc ''14:00'' ''09:00'' < 0" "lc ''14:00'' ''09:00'' \<noteq> 0"
    "\<not> lc ''14:00'' ''12:00'' < 0" "lc ''14:00'' ''12:00'' \<noteq> 0"
    using lc [OF c(2) c(3)] lc [OF c(1) c(2)] lc [OF c(1) c(3)] by simp_all
  then show ?thesis
    using assms(2-4) by (simp add: sortTasks_def arraySort_def compareTasks_def Let_def)
qed

lemma isDigit_range: "isDigit c \<Longrightarrow> 48 \<le> (of_char c :: nat) \<and> (of_char c :: nat) \<le> 57 \<and> c \<noteq> CHR '':''"
  by (auto simp: isDigit_def)

lemma rank_digits:
  assumes "isDigit x" "isDigit y"
  shows "(collationRank x < collationRank y) = (x < y)"
  using isDigit_range [OF assms(1)] isDigit_range [OF assms(2)]
  by (auto simp: collationRank_def digitVal_def less_char_def)

lemma digitColonCompare_canonical:
  assumes "canonicalTime a" "canonicalTime b"
  shows "(digitColonCompare a b < 0) = (a < b) \<and> (digitColonCompare a b = 0) = (a = b)"
proof -
  have la: "length a = 5" and lb: "length b = 5"
    using assms by (simp_all add: canonicalTime_def)
  obtain a0 a1 a3 a4 where a: "a = [a0, a1, CHR '':'', a3, a4]"
    and da: "isDigit a0" "isDigit a1" "isDigit a3" "isDigit a4"
    using assms(1) list5 [OF la] by (auto simp: canonicalTime_def)
  obtain b0 b1 b3 b4 where b: "b = [b0, b1, CHR '':'', b3, b4]"
    and db: "isDigit b0" "isDigit b1" "isDigit b3" "isDigit b4"
    using assms(2) list5 [OF lb] by (auto simp: canonicalTime_def)
  have r: "(collationRank a0 < collationRank b0) = (a0 < b0)" "(collationRank b0 < collationRank a0) = (b0 < a0)"
    "(collationRank a1 < collationRank b1) = (a1 < b1)" "(collationRank b1 < collationRank a1) = (b1 < a1)"
    "(collationRank a3 < collationRank b3) = (a3 < b3)" "(collationRank b3 < collationRank a3) = (b3 < a3)"
    "(collationRank a4 < collationRank b4) = (a4 < b4)" "(collationRank b4 < collationRank a4) = (b4 < a4)"
    using da db by (simp_all add: rank_digits)
  show ?thesis
    unfolding a b by (auto simp: r)
qed

lemma isTaskListSorted_step:
  assumes "(lc (time a) (time b) < 0) = (time a < time b)" "(lc (time a) (time b) = 0) = (time a = time b)"
  shows "isTaskListSorted lc (a # b # ts) \<longleftrightarrow> taskOrder a b \<and> isTaskListSorted lc (b # ts)"
  using assms by (auto simp: taskOrder_def Let_def)

lemma isTaskListSorted_iff:
  assumes lc: "\<And>a b. canonicalTime a \<Longrightarrow> canonicalTime b \<Longrightarrow> (lc a b < 0) = (a < b) \<and> (lc a b = 0) = (a = b)"
    and "list_all (\<lambda>t. canonicalTime (time t)) ts"
  shows "isTaskListSorted lc ts \<longleftrightarrow> sorted_wrt taskOrder ts"
  using assms(2)
proof (induction ts rule: induct_list012)
  case (3 a b ts)
  have c: "canonicalTime (time a)" "canonicalTime (time b)"
    using 3(3) by simp_all
  have "isTaskListSorted lc (a # b # ts) \<longleftrightarrow> taskOrder a b \<and> isTaskListSorted lc (b # ts)"
    using lc [OF c] by (intro isTaskListSorted_step) simp_all
  also have "\<dots> \<longleftrightarrow> taskOrder a b \<and> sorted_wrt taskOrder (b # ts)"
    using 3 by simp
  also have "\<dots> \<longleftrightarrow> sorted_wrt taskOrder (a # b # ts)"
    by (auto intro: taskOrder_trans)
  finally show ?case .
qed simp_all

lemma isTaskListSorted_sortTasks:
  assumes lc: "\<And>a b. canonicalTime a \<Longrightarrow> canonicalTime b \<Longrightarrow> (lc a b < 0) = (a < b) \<and> (lc a b = 0) = (a = b)"
    and c: "list_all (\<lambda>t. canonicalTime (time t)) ts"
  shows "isTaskListSorted lc (sortTasks lc ts)"
proof -
  have "list_all (\<lambda>t. canonicalTime (time t)) (sortTasks lc ts)"
    using c by (simp add: sortTasks_def list_all_iff set_arraySort)
  then show ?thesis
    using sorted_sortTasks [OF assms] isTaskListSorted_iff [OF lc] by blast
qed

text \<open>
  C2, as the code has it. Let the host's comparison agree with the lexicographic order on
  canonical times, and let every task of the list have a canonical time. Then
  \<open>sortTasks\<close> returns a permutation of the list that is ordered by \<open>taskOrder\<close>, and
  that \<open>isTaskListSorted\<close> accepts: ascending by the lexicographic order of the time
  strings, for equal times descending by weight (high 3, medium 2, low 1, no priority 1),
  for equal times and weights ascending by \<open>createdAt\<close>. Tasks tied on all three keys keep
  their relative order. Three tasks at 14:00, 09:00 and 12:00 come out at 09:00, 12:00 and
  14:00.
\<close>

theorem sortTasks_ordered_stable:
  assumes "\<And>a b. canonicalTime a \<Longrightarrow> canonicalTime b \<Longrightarrow> (lc a b < 0) = (a < b) \<and> (lc a b = 0) = (a = b)"
    and "list_all (\<lambda>t. canonicalTime (time t)) ts"
  shows "sorted_wrt taskOrder (sortTasks lc ts)
   \<and> isTaskListSorted lc (sortTasks lc ts)
   \<and> mset (sortTasks lc ts) = mset ts
   \<and> filter (\<lambda>t. time t = tm \<and> weight t = w \<and> createdAt t = c) (sortTasks lc ts)
       = filter (\<lambda>t. time t = tm \<and> weight t = w \<and> createdAt t = c) ts
   \<and> weight (t\<lparr>priority := Some High\<rparr>) = 3 \<and> weight (t\<lparr>priority := Some Medium\<rparr>) = 2
   \<and> weight (t\<lparr>priority := Some Low\<rparr>) = 1 \<and> weight (t\<lparr>priority := None\<rparr>) = 1
   \<and> (time x = ''14:00'' \<and> time y = ''09:00'' \<and> time z = ''12:00'' \<longrightarrow>
        map time (sortTasks lc [x, y, z]) = [''09:00'', ''12:00'', ''14:00''])"
proof -
  have m: "mset (sortTasks lc ts) = mset ts"
    by (simp add: sortTasks_def mset_arraySort)
  have w: "weight (t\<lparr>priority := Some High\<rparr>) = 3" "weight (t\<lparr>priority := Some Medium\<rparr>) = 2"
    "weight (t\<lparr>priority := Some Low\<rparr>) = 1" "weight (t\<lparr>priority := None\<rparr>) = 1"
    by (simp_all add: weight_def PRIORITY_ORDER_def)
  have e: "time x = ''14:00'' \<and> time y = ''09:00'' \<and> time z = ''12:00'' \<longrightarrow>
        map time (sortTasks lc [x, y, z]) = [''09:00'', ''12:00'', ''14:00'']"
    using sortTasks_three [OF assms(1)] by blast
  show ?thesis
    using sorted_sortTasks [OF assms] isTaskListSorted_sortTasks [OF assms] m
      sortTasks_stable [OF assms, of tm w c] w e
    by (intro conjI)
qed

theorem sortTasks_ordered_stable_witness:
  "list_all (\<lambda>t. canonicalTime (time t))
     [\<lparr>time = ''14:00'', title = ''a'', priority = None, id' = ''1'', createdAt = 1\<rparr>,
      \<lparr>time = ''09:00'', title = ''b'', priority = Some Low, id' = ''2'', createdAt = 2\<rparr>,
      \<lparr>time = ''12:00'', title = ''c'', priority = Some High, id' = ''3'', createdAt = 3\<rparr>]
   \<and> sorted_wrt taskOrder (sortTasks digitColonCompare
     [\<lparr>time = ''14:00'', title = ''a'', priority = None, id' = ''1'', createdAt = 1\<rparr>,
      \<lparr>time = ''09:00'', title = ''b'', priority = Some Low, id' = ''2'', createdAt = 2\<rparr>,
      \<lparr>time = ''12:00'', title = ''c'', priority = Some High, id' = ''3'', createdAt = 3\<rparr>])
   \<and> map time (sortTasks digitColonCompare
     [\<lparr>time = ''14:00'', title = ''a'', priority = None, id' = ''1'', createdAt = 1\<rparr>,
      \<lparr>time = ''09:00'', title = ''b'', priority = Some Low, id' = ''2'', createdAt = 2\<rparr>,
      \<lparr>time = ''12:00'', title = ''c'', priority = Some High, id' = ''3'', createdAt = 3\<rparr>])
     = [''09:00'', ''12:00'', ''14:00'']"
proof -
  have c: "list_all (\<lambda>t. canonicalTime (time t))
     [\<lparr>time = ''14:00'', title = ''a'', priority = None, id' = ''1'', createdAt = 1\<rparr>,
      \<lparr>time = ''09:00'', title = ''b'', priority = Some Low, id' = ''2'', createdAt = 2\<rparr>,
      \<lparr>time = ''12:00'', title = ''c'', priority = Some High, id' = ''3'', createdAt = 3\<rparr>]"
    by (simp add: canonicalTime_def isDigit_def digitVal_def)
  show ?thesis
    using c sortTasks_ordered_stable [of digitColonCompare, OF digitColonCompare_canonical c,
        of "[]" 0 0 "\<lparr>time = ''14:00'', title = ''a'', priority = None, id' = ''1'', createdAt = 1\<rparr>"
        "\<lparr>time = ''14:00'', title = ''a'', priority = None, id' = ''1'', createdAt = 1\<rparr>"
        "\<lparr>time = ''09:00'', title = ''b'', priority = Some Low, id' = ''2'', createdAt = 2\<rparr>"
        "\<lparr>time = ''12:00'', title = ''c'', priority = Some High, id' = ''3'', createdAt = 3\<rparr>"]
    by simp
qed

text \<open>
  C2 as stated covers every list of tasks. The host collates the colon before the digits,
  so it puts the time \<^verbatim>\<open>1:00\<close> before \<^verbatim>\<open>10:00\<close>, while \<^verbatim>\<open>10:00\<close> is the smaller string
  in the lexicographic order: the sorted list is not ascending in that order.
\<close>

theorem sortTasks_collation_order:
  "map time (sortTasks digitColonCompare
     [\<lparr>time = ''10:00'', title = ''a'', priority = None, id' = ''1'', createdAt = 1\<rparr>,
      \<lparr>time = ''1:00'', title = ''b'', priority = None, id' = ''2'', createdAt = 2\<rparr>])
     = [''1:00'', ''10:00'']
   \<and> ''10:00'' < ''1:00''
   \<and> \<not> sorted_wrt taskOrder (sortTasks digitColonCompare
     [\<lparr>time = ''10:00'', title = ''a'', priority = None, id' = ''1'', createdAt = 1\<rparr>,
      \<lparr>time = ''1:00'', title = ''b'', priority = None, id' = ''2'', createdAt = 2\<rparr>])"
  by (simp add: sortTasks_def arraySort_def compareTasks_def collationRank_def digitVal_def
      taskOrder_def Let_def)

subsection \<open>The repository\<close>

lemma isValid_iff: "isValid (validateAndSanitizeTaskFormData fd) \<longleftrightarrow> errors (validateAndSanitizeTaskFormData fd) = []"
  by (simp add: validateAndSanitizeTaskFormData_def Let_def)

lemma findIndex_None: "\<not> list_ex P xs \<Longrightarrow> findIndex P xs = None"
  by (induction xs) auto

lemma setValueCall_updater:
  assumes "setItemThrows st = None"
  shows "setValueCall stringify key (Updater f) st
         = (st\<lparr>items := (items st)(key \<mapsto> ''undefined'')\<rparr>, [Updater f], None)"
  using assms by (simp add: setValueCall_def setItem_def serialize_def)




text \<open>
  C6. The claim has \<open>updateTask\<close> and \<open>deleteTask\<close> fail with the not-found error and
  leave everything as it was. In the code, when no task has the id, the call of
  \<open>deleteTask\<close>, and of \<open>updateTask\<close> with valid data, returns; it has overwritten the item
  under the key with the text \<^verbatim>\<open>undefined\<close>, and the not-found error is thrown by the
  updater in the render that follows. When validation reports errors, \<open>addTask\<close> and
  \<open>updateTask\<close> do throw to their caller, with store and state untouched; the data with
  time 25:00 and an empty title give one error for the time and one for the title.
\<close>

theorem notFound_overwrites_store:
  assumes "\<not> list_ex (\<lambda>t. id' t = i) (storedValue h)" and "setItemThrows st = None"
  shows "deleteTask parse stringify i (st, h)
       = RenderThrew (NotFound (notFoundMessage i)) (st\<lparr>items := (items st)(STORAGE_KEY \<mapsto> ''undefined'')\<rparr>)
   \<and> (if isValid (validateAndSanitizeTaskFormData fd)
       then updateTask lc parse stringify i fd (st, h)
            = RenderThrew (NotFound (notFoundMessage i))
                (st\<lparr>items := (items st)(STORAGE_KEY \<mapsto> ''undefined'')\<rparr>)
       else updateTask lc parse stringify i fd (st, h)
            = Thrown (ValidationFailed (validationMessage (errors (validateAndSanitizeTaskFormData fd)))) (st, h)
          \<and> addTask lc parse stringify newId now fd (st, h)
            = Thrown (ValidationFailed (validationMessage (errors (validateAndSanitizeTaskFormData fd)))) (st, h))
   \<and> map field (errors (validateAndSanitizeTaskFormData
         \<lparr>time = ''25:00'', title = '''', priority = Some Medium\<rparr>)) = [''time'', ''title'']"
proof -
  have e: "map field (errors (validateAndSanitizeTaskFormData
         \<lparr>time = ''25:00'', title = '''', priority = Some Medium\<rparr>)) = [''time'', ''title'']"
    by code_simp
  have d: "deleteTask parse stringify i (st, h)
       = RenderThrew (NotFound (notFoundMessage i)) (st\<lparr>items := (items st)(STORAGE_KEY \<mapsto> ''undefined'')\<rparr>)"
    using assms(1)
    by (simp add: deleteTask_def setTasks_def setValueCall_updater [OF assms(2)] deleteUpdater_def)
  have u: "updateTask lc parse stringify i fd (st, h)
            = RenderThrew (NotFound (notFoundMessage i))
                (st\<lparr>items := (items st)(STORAGE_KEY \<mapsto> ''undefined'')\<rparr>)"
    if "isValid (validateAndSanitizeTaskFormData fd)"
    using that findIndex_None [OF assms(1)]
    by (simp add: updateTask_def Let_def setTasks_def setValueCall_updater [OF assms(2)]
        updateUpdater_def)
  have t: "updateTask lc parse stringify i fd (st, h)
            = Thrown (ValidationFailed (validationMessage (errors (validateAndSanitizeTaskFormData fd)))) (st, h)
          \<and> addTask lc parse stringify newId now fd (st, h)
            = Thrown (ValidationFailed (validationMessage (errors (validateAndSanitizeTaskFormData fd)))) (st, h)"
    if "\<not> isValid (validateAndSanitizeTaskFormData fd)"
    using that by (simp add: updateTask_def addTask_def Let_def)
  show ?thesis
    using d u t e by simp
qed

theorem notFound_overwrites_store_witness:
  "\<not> list_ex (\<lambda>t. id' t = ''missing-id'')
       [\<lparr>time = ''09:00'', title = ''Morning'', priority = Some High, id' = ''task1'', createdAt = 1000000\<rparr>]
   \<and> deleteTask (\<lambda>s. if s = ''[task1]'' then Some [\<lparr>time = ''09:00'', title = ''Morning'',
           priority = Some High, id' = ''task1'', createdAt = 1000000\<rparr>] else None) (\<lambda>ts. ''[]'')
       ''missing-id''
       (\<lparr>items = [''dayPlannerTasks'' \<mapsto> ''[task1]''], getItemThrows = None, setItemThrows = None,
         removeItemThrows = None\<rparr>,
        \<lparr>storedValue = [\<lparr>time = ''09:00'', title = ''Morning'', priority = Some High,
                          id' = ''task1'', createdAt = 1000000\<rparr>], error = None\<rparr>)
     = RenderThrew (NotFound (notFoundMessage ''missing-id''))
         \<lparr>items = [''dayPlannerTasks'' \<mapsto> ''undefined''], getItemThrows = None, setItemThrows = None,
          removeItemThrows = None\<rparr>
   \<and> useLocalStorage (\<lambda>s. if s = ''[task1]'' then Some [\<lparr>time = ''09:00'', title = ''Morning'',
           priority = Some High, id' = ''task1'', createdAt = 1000000\<rparr>] else None) ''dayPlannerTasks'' []
         \<lparr>items = [''dayPlannerTasks'' \<mapsto> ''undefined''], getItemThrows = None, setItemThrows = None,
          removeItemThrows = None\<rparr>
     = (\<lparr>items = Map.empty, getItemThrows = None, setItemThrows = None, removeItemThrows = None\<rparr>,
        \<lparr>storedValue = [], error = Some ''Data was corrupted and has been reset''\<rparr>)"
proof -
  have l: "\<not> list_ex (\<lambda>t. id' t = ''missing-id'')
       [\<lparr>time = ''09:00'', title = ''Morning'', priority = Some High, id' = ''task1'', createdAt = 1000000\<rparr>]"
    by simp
  have r: "useLocalStorage (\<lambda>s. if s = ''[task1]'' then Some [\<lparr>time = ''09:00'', title = ''Morning'',
           priority = Some High, id' = ''task1'', createdAt = 1000000\<rparr>] else None) ''dayPlannerTasks'' []
         \<lparr>items = [''dayPlannerTasks'' \<mapsto> ''undefined''], getItemThrows = None, setItemThrows = None,
          removeItemThrows = None\<rparr>
     = (\<lparr>items = Map.empty, getItemThrows = None, setItemThrows = None, removeItemThrows = None\<rparr>,
        \<lparr>storedValue = [], error = Some ''Data was corrupted and has been reset''\<rparr>)"
    by (simp add: useLocalStorage_def loadEffect_def loadRecover_def getItem_def removeItem_def
        msgCorrupted_def)
  show ?thesis
    using l r notFound_overwrites_store [of "''missing-id''"
        "\<lparr>storedValue = [\<lparr>time = ''09:00'', title = ''Morning'', priority = Some High,
                          id' = ''task1'', createdAt = 1000000\<rparr>], error = None\<rparr>"
        "\<lparr>items = [''dayPlannerTasks'' \<mapsto> ''[task1]''], getItemThrows = None, setItemThrows = None,
         removeItemThrows = None\<rparr>"
        "\<lambda>s. if s = ''[task1]'' then Some [\<lparr>time = ''09:00'', title = ''Morning'',
           priority = Some High, id' = ''task1'', createdAt = 1000000\<rparr>] else None" "\<lambda>ts. ''[]''"]
    by (simp add: STORAGE_KEY_def)
qed

subsection \<open>The persistent store\<close>

lemma save_messages_distinct: "distinct [msgQuota, msgAccess, msgFailed, msgUnknown]"
  by (simp add: msgQuota_def msgAccess_def msgFailed_def msgUnknown_def)

text \<open>
  C5, as the code has it. \<open>setValue\<close> always leaves the written value in memory. A write
  whose \<open>setItem\<close> throws leaves the store as it was and reports one of four messages,
  all distinct: for an \<^verbatim>\<open>Error\<close> the quota message when its name is
  \<^verbatim>\<open>QuotaExceededError\<close> or its message contains \<^verbatim>\<open>quota\<close>, else the access message
  when its message contains \<^verbatim>\<open>access\<close>, else the generic one; for a thrown value that is
  not an \<^verbatim>\<open>Error\<close> the unknown-error message. A write whose \<open>setItem\<close> succeeds stores
  the serialized value and reports no error.
\<close>

theorem setValue_write:
  "storedValue (snd (setValue stringify key v (st, h))) = v
   \<and> (setItemThrows st = Some err \<longrightarrow>
        setValue stringify key v (st, h) = (st, \<lparr>storedValue = v, error = Some (saveErrorMessage err)\<rparr>))
   \<and> saveErrorMessage (ErrorObject name msg) =
        (if name = ''QuotaExceededError'' \<or> includesStr msg ''quota'' then msgQuota
         else if includesStr msg ''access'' then msgAccess
         else msgFailed)
   \<and> saveErrorMessage NonError = msgUnknown
   \<and> distinct [msgQuota, msgAccess, msgFailed, msgUnknown]
   \<and> (setItemThrows st = None \<longrightarrow>
        setValue stringify key v (st, h)
          = (st\<lparr>items := (items st)(key \<mapsto> stringify v)\<rparr>, \<lparr>storedValue = v, error = None\<rparr>))"
  by (cases h; cases "setItemThrows st")
    (simp_all add: setValue_def setItem_def saveErrorMessage_def save_messages_distinct Let_def
      del: distinct.simps)

theorem setValue_write_witness:
  "setValue (\<lambda>n::nat. ''7'') ''k'' 7
     (\<lparr>items = Map.empty, getItemThrows = None,
       setItemThrows = Some (ErrorObject ''Error'' ''Storage quota has been exceeded''),
       removeItemThrows = None\<rparr>, \<lparr>storedValue = 0, error = None\<rparr>)
   = (\<lparr>items = Map.empty, getItemThrows = None,
       setItemThrows = Some (ErrorObject ''Error'' ''Storage quota has been exceeded''),
       removeItemThrows = None\<rparr>, \<lparr>storedValue = 7, error = Some msgQuota\<rparr>)
   \<and> error (snd (setValue (\<lambda>n::nat. ''7'') ''k'' 7
        (\<lparr>items = Map.empty, getItemThrows = None, setItemThrows = None, removeItemThrows = None\<rparr>,
         \<lparr>storedValue = 0, error = Some msgFailed\<rparr>))) = None"
proof -
  have q: "saveErrorMessage (ErrorObject ''Error'' ''Storage quota has been exceeded'') = msgQuota"
    by (simp add: saveErrorMessage_def)
  show ?thesis
    using setValue_write [of "\<lambda>n::nat. ''7''" "''k''" 7
        "\<lparr>items = Map.empty, getItemThrows = None,
          setItemThrows = Some (ErrorObject ''Error'' ''Storage quota has been exceeded''),
          removeItemThrows = None\<rparr>" "\<lparr>storedValue = 0, error = None\<rparr>"
        "ErrorObject ''Error'' ''Storage quota has been exceeded''"]
      setValue_write [of "\<lambda>n::nat. ''7''" "''k''" 7
        "\<lparr>items = Map.empty, getItemThrows = None, setItemThrows = None, removeItemThrows = None\<rparr>"
        "\<lparr>storedValue = 0, error = Some msgFailed\<rparr>"]
    by (simp add: q)
qed

text \<open>
  C5 as stated speaks of exactly three reported kinds. A write whose \<open>setItem\<close> throws a
  value that is not an \<^verbatim>\<open>Error\<close> reports a fourth message.
\<close>

theorem setValue_fourth_kind:
  "error (snd (setValue (\<lambda>n::nat. ''7'') ''k'' 7
        (\<lparr>items = Map.empty, getItemThrows = None, setItemThrows = Some NonError,
          removeItemThrows = None\<rparr>, \<lparr>storedValue = 0, error = None\<rparr>)))
     = Some ''Unknown error occurred while saving data''
   \<and> ''Unknown error occurred while saving data'' \<noteq> msgQuota
   \<and> ''Unknown error occurred while saving data'' \<noteq> msgAccess
   \<and> ''Unknown error occurred while saving data'' \<noteq> msgFailed"
  by (simp add: setValue_def setItem_def saveErrorMessage_def msgUnknown_def msgQuota_def
      msgAccess_def msgFailed_def)

text \<open>
  C8, as the code has it. On mount, a stored value that is not empty and does not
  deserialize is removed from the store, the corrupted-data error is reported and the
  default value is kept; when the removal throws, the store stays, the inaccessible error
  is reported and the default value is kept. When the key is absent, or holds the empty
  string, nothing is touched: the default value and no error.
\<close>

theorem load_self_healing:
  "(getItemThrows st = None \<and> items st key = Some i \<and> i \<noteq> [] \<and> parse i = None \<longrightarrow>
      (removeItemThrows st = None \<longrightarrow>
         useLocalStorage parse key d st
           = (st\<lparr>items := (items st)(key := None)\<rparr>, \<lparr>storedValue = d, error = Some msgCorrupted\<rparr>))
      \<and> (removeItemThrows st = Some e \<longrightarrow>
         useLocalStorage parse key d st = (st, \<lparr>storedValue = d, error = Some msgInaccessible\<rparr>)))
   \<and> (getItemThrows st = None \<and> (items st key = None \<or> items st key = Some []) \<longrightarrow>
        useLocalStorage parse key d st = (st, \<lparr>storedValue = d, error = None\<rparr>))
   \<and> msgCorrupted \<noteq> msgInaccessible"
  by (auto simp: useLocalStorage_def loadEffect_def loadRecover_def getItem_def removeItem_def
      msgCorrupted_def msgInaccessible_def)

theorem load_self_healing_witness:
  "useLocalStorage (\<lambda>s. if s = ''[]'' then Some ([]::nat list) else None) ''dayPlannerTasks'' []
     \<lparr>items = [''dayPlannerTasks'' \<mapsto> ''invalid-json{''], getItemThrows = None, setItemThrows = None,
      removeItemThrows = None\<rparr>
   = (\<lparr>items = Map.empty, getItemThrows = None, setItemThrows = None, removeItemThrows = None\<rparr>,
      \<lparr>storedValue = [], error = Some msgCorrupted\<rparr>)
   \<and> useLocalStorage (\<lambda>s. if s = ''[]'' then Some ([]::nat list) else None) ''dayPlannerTasks'' []
     \<lparr>items = Map.empty, getItemThrows = None, setItemThrows = None, removeItemThrows = None\<rparr>
   = (\<lparr>items = Map.empty, getItemThrows = None, setItemThrows = None, removeItemThrows = None\<rparr>,
      \<lparr>storedValue = [], error = None\<rparr>)"
  using load_self_healing [of
      "\<lparr>items = [''dayPlannerTasks'' \<mapsto> ''invalid-json{''], getItemThrows = None, setItemThrows = None,
        removeItemThrows = None\<rparr>" "''dayPlannerTasks''" "''invalid-json{''"
      "\<lambda>s. if s = ''[]'' then Some ([]::nat list) else None" "[]" NonError]
    load_self_healing [of
      "\<lparr>items = Map.empty, getItemThrows = None, setItemThrows = None, removeItemThrows = None\<rparr>"
      "''dayPlannerTasks''" "''x''"
      "\<lambda>s. if s = ''[]'' then Some ([]::nat list) else None" "[]" NonError]
  by simp

text \<open>
  C8 as stated covers every stored value that cannot be deserialized. The empty string is
  stored and is not valid JSON, yet the test \<^verbatim>\<open>if (item)\<close> skips it: the key is kept and
  no error is reported.
\<close>

theorem load_empty_string_kept:
  "useLocalStorage (\<lambda>s. if s = ''[]'' then Some ([]::nat list) else None) ''dayPlannerTasks'' []
     \<lparr>items = [''dayPlannerTasks'' \<mapsto> ''''], getItemThrows = None, setItemThrows = None,
      removeItemThrows = None\<rparr>
   = (\<lparr>items = [''dayPlannerTasks'' \<mapsto> ''''], getItemThrows = None, setItemThrows = None,
       removeItemThrows = None\<rparr>, \<lparr>storedValue = [], error = None\<rparr>)
   \<and> (if '''' = ''[]'' then Some ([]::nat list) else None) = None"
  by (simp add: useLocalStorage_def loadEffect_def getItem_def)

subsection \<open>The title validator\<close>

text \<open>
  C10. For every title, \<open>validateTitleField\<close> returns at most one error, and never the
  message about a title shorter than one character: a title that is empty after trimming
  has already returned with the message that it cannot be empty.
\<close>

theorem validateTitleField_at_most_one:
  "length (validateTitleField t) \<le> 1
   \<and> ''Title must be at least 1 character long'' \<notin> message ` set (validateTitleField t)"
  by (cases "trim t") (simp_all add: validateTitleField_def Let_def)

end
